theory Spec2Isabelle
  imports Complex_Main
begin

section \<open>Python floats\<close>

text \<open>
  The engine computes on IEEE doubles. A double is modelled by its exact real value, or one
  of the three special values; rounding error and the sign of zero are not modelled.
  Comparisons with \<open>NaN\<close> are false, as in Python and numpy.
\<close>

datatype pyfloat = Num real | PInf | NInf | NaN

datatype py_error = ZeroDivisionError | IndexError | ValueError | OverflowError | TypeError

fun isnan :: "pyfloat \<Rightarrow> bool" where
  "isnan NaN = True"
| "isnan _ = False"

fun is_finite :: "pyfloat \<Rightarrow> bool" where
  "is_finite (Num _) = True"
| "is_finite _ = False"

fun fneg :: "pyfloat \<Rightarrow> pyfloat" where
  "fneg (Num a) = Num (- a)"
| "fneg PInf = NInf"
| "fneg NInf = PInf"
| "fneg NaN = NaN"

fun fabs :: "pyfloat \<Rightarrow> pyfloat" where
  "fabs (Num a) = Num \<bar>a\<bar>"
| "fabs PInf = PInf"
| "fabs NInf = PInf"
| "fabs NaN = NaN"

fun fadd :: "pyfloat \<Rightarrow> pyfloat \<Rightarrow> pyfloat" where
  "fadd (Num a) (Num b) = Num (a + b)"
| "fadd NaN _ = NaN"
| "fadd _ NaN = NaN"
| "fadd PInf NInf = NaN"
| "fadd NInf PInf = NaN"
| "fadd PInf _ = PInf"
| "fadd _ PInf = PInf"
| "fadd NInf _ = NInf"
| "fadd _ NInf = NInf"

definition fsub :: "pyfloat \<Rightarrow> pyfloat \<Rightarrow> pyfloat" where
  "fsub x y = fadd x (fneg y)"

fun fsign_inf :: "bool \<Rightarrow> pyfloat" where
  "fsign_inf True = PInf"
| "fsign_inf False = NInf"

fun fmul :: "pyfloat \<Rightarrow> pyfloat \<Rightarrow> pyfloat" where
  "fmul (Num a) (Num b) = Num (a * b)"
| "fmul NaN _ = NaN"
| "fmul _ NaN = NaN"
| "fmul (Num a) PInf = (if a = 0 then NaN else fsign_inf (0 < a))"
| "fmul (Num a) NInf = (if a = 0 then NaN else fsign_inf (a < 0))"
| "fmul PInf (Num b) = (if b = 0 then NaN else fsign_inf (0 < b))"
| "fmul NInf (Num b) = (if b = 0 then NaN else fsign_inf (b < 0))"
| "fmul PInf PInf = PInf"
| "fmul NInf NInf = PInf"
| "fmul PInf NInf = NInf"
| "fmul NInf PInf = NInf"

text \<open>Division of numpy scalars and arrays: a zero divisor gives an infinity or NaN.\<close>

fun fdiv :: "pyfloat \<Rightarrow> pyfloat \<Rightarrow> pyfloat" where
  "fdiv (Num a) (Num b) =
     (if b = 0 then (if a = 0 then NaN else fsign_inf (0 < a)) else Num (a / b))"
| "fdiv NaN _ = NaN"
| "fdiv _ NaN = NaN"
| "fdiv (Num a) PInf = Num 0"
| "fdiv (Num a) NInf = Num 0"
| "fdiv PInf (Num b) = fsign_inf (0 \<le> b)"
| "fdiv NInf (Num b) = fsign_inf (b < 0)"
| "fdiv PInf PInf = NaN"
| "fdiv PInf NInf = NaN"
| "fdiv NInf PInf = NaN"
| "fdiv NInf NInf = NaN"

text \<open>Division of Python floats: a zero divisor raises.\<close>

definition py_div :: "pyfloat \<Rightarrow> pyfloat \<Rightarrow> py_error + pyfloat" where
  "py_div x y = (if y = Num 0 then Inl ZeroDivisionError else Inr (fdiv x y))"

fun flt :: "pyfloat \<Rightarrow> pyfloat \<Rightarrow> bool" where
  "flt (Num a) (Num b) = (a < b)"
| "flt NaN _ = False"
| "flt _ NaN = False"
| "flt NInf NInf = False"
| "flt NInf _ = True"
| "flt PInf _ = False"
| "flt (Num a) PInf = True"
| "flt (Num a) NInf = False"

fun fle :: "pyfloat \<Rightarrow> pyfloat \<Rightarrow> bool" where
  "fle (Num a) (Num b) = (a \<le> b)"
| "fle NaN _ = False"
| "fle _ NaN = False"
| "fle NInf _ = True"
| "fle PInf PInf = True"
| "fle PInf _ = False"
| "fle (Num a) PInf = True"
| "fle (Num a) NInf = False"

definition fgt :: "pyfloat \<Rightarrow> pyfloat \<Rightarrow> bool" where
  "fgt x y = flt y x"

definition fge :: "pyfloat \<Rightarrow> pyfloat \<Rightarrow> bool" where
  "fge x y = fle y x"

text \<open>The builtins \<open>max(a, b)\<close> and \<open>min(a, b)\<close> keep the first argument unless the
  second is strictly larger (smaller).\<close>

definition pymax :: "pyfloat \<Rightarrow> pyfloat \<Rightarrow> pyfloat" where
  "pymax a b = (if fgt b a then b else a)"

definition pymin :: "pyfloat \<Rightarrow> pyfloat \<Rightarrow> pyfloat" where
  "pymin a b = (if flt b a then b else a)"

text \<open>Truth value of a float: everything but zero, NaN included.\<close>

definition truthy :: "pyfloat \<Rightarrow> bool" where
  "truthy x = (x \<noteq> Num 0)"

text \<open>\<open>round(x, 2)\<close>: to the nearest multiple of 0.01, ties to the even one; the special
  values are returned unchanged.\<close>

definition round_half_even :: "real \<Rightarrow> int" where
  "round_half_even x =
     (let f = \<lfloor>x\<rfloor>; d = x - of_int f
      in if d < 1 / 2 then f else if 1 / 2 < d then f + 1 else if even f then f else f + 1)"

fun round2 :: "pyfloat \<Rightarrow> pyfloat" where
  "round2 (Num a) = Num (of_int (round_half_even (a * 100)) / 100)"
| "round2 x = x"

text \<open>\<open>int(x)\<close> truncates towards zero and raises on the special values.\<close>

fun py_int :: "pyfloat \<Rightarrow> py_error + int" where
  "py_int (Num a) = Inr (if 0 \<le> a then \<lfloor>a\<rfloor> else \<lceil>a\<rceil>)"
| "py_int NaN = Inl ValueError"
| "py_int PInf = Inl OverflowError"
| "py_int NInf = Inl OverflowError"

text \<open>A formatted message: the fixed text of the f-string (in ASCII) and the numbers
  formatted into it.\<close>

datatype message = Msg string "pyfloat list"

section \<open>Bar series\<close>

record bar =
  bar_open :: pyfloat
  high :: pyfloat
  low :: pyfloat
  close :: pyfloat
  volume :: pyfloat

type_synonym series = "pyfloat list"

text \<open>\<open>Series.shift()\<close> and \<open>Series.diff()\<close>: the first entry is NaN.\<close>

definition shift :: "series \<Rightarrow> series" where
  "shift xs = (if xs = [] then [] else NaN # butlast xs)"

definition diff :: "series \<Rightarrow> series" where
  "diff xs = map2 fsub xs (shift xs)"

text \<open>
  \<open>Series.rolling(window=w)\<close> followed by \<open>mean\<close>, \<open>min\<close> or \<open>max\<close>: entry \<open>i\<close> aggregates
  the \<open>w\<close> entries ending at \<open>i\<close>; it is NaN while fewer than \<open>w\<close> entries are available and
  when the window holds a NaN. The rolling routines replace infinities by NaN before
  aggregating.
\<close>

definition window :: "nat \<Rightarrow> 'a list \<Rightarrow> nat \<Rightarrow> 'a list" where
  "window w xs i = take w (drop (Suc i - w) xs)"

fun the_real :: "pyfloat \<Rightarrow> real" where
  "the_real (Num a) = a"
| "the_real _ = 0"

definition aggregate :: "(real list \<Rightarrow> real) \<Rightarrow> series \<Rightarrow> pyfloat" where
  "aggregate agg ys = (if list_all is_finite ys then Num (agg (map the_real ys)) else NaN)"

definition rolling :: "(real list \<Rightarrow> real) \<Rightarrow> nat \<Rightarrow> series \<Rightarrow> series" where
  "rolling agg w xs =
     map (\<lambda>i. if Suc i < w then NaN else aggregate agg (window w xs i)) [0..<length xs]"

definition mean :: "real list \<Rightarrow> real" where
  "mean rs = sum_list rs / real (length rs)"

fun list_min :: "real list \<Rightarrow> real" where
  "list_min [] = 0"
| "list_min [x] = x"
| "list_min (x # y # ys) = min x (list_min (y # ys))"

fun list_max :: "real list \<Rightarrow> real" where
  "list_max [] = 0"
| "list_max [x] = x"
| "list_max (x # y # ys) = max x (list_max (y # ys))"

text \<open>\<open>Series.where(cond, 0)\<close>.\<close>

definition where_or_zero :: "bool list \<Rightarrow> series \<Rightarrow> series" where
  "where_or_zero conds xs = map2 (\<lambda>c x. if c then x else Num 0) conds xs"

text \<open>Row maximum of \<open>DataFrame.max(axis=1)\<close>: NaN entries are skipped.\<close>

fun nanmax :: "pyfloat \<Rightarrow> pyfloat \<Rightarrow> pyfloat" where
  "nanmax NaN y = y"
| "nanmax x NaN = x"
| "nanmax x y = (if flt x y then y else x)"

section \<open>Price validator\<close>

definition default_min_price :: pyfloat where
  "default_min_price = Num (1 / 100)"

text \<open>
  The Python values that may be passed for a price: \<open>None\<close>, a float, an int and a string.
  A character of a string is its code point, below 256.
\<close>

datatype py_value = PyNone | PyFloat pyfloat | PyInt int | PyStr string

text \<open>\<open>pd.isna\<close> on a scalar: true for \<open>None\<close> and a NaN float, false for ints and strings.\<close>

fun pd_isna :: "py_value \<Rightarrow> bool" where
  "pd_isna PyNone = True"
| "pd_isna (PyFloat p) = isnan p"
| "pd_isna (PyInt i) = False"
| "pd_isna (PyStr s) = False"

text \<open>
  The builtin \<open>float\<close> on a string. White space is stripped at both ends (the ASCII white
  space, and the next-line and no-break-space characters). An underscore is removed when it
  stands between two digits and is an error elsewhere. What remains is an optional sign
  followed by \<open>inf\<close>, \<open>infinity\<close> or \<open>nan\<close> in any case, or by a decimal number: digits with
  an optional point, at least one digit in all, and an optional exponent \<open>e\<close> or \<open>E\<close> with
  an optional sign and at least one digit. A number that rounds to \<open>2 ^ 1024\<close> or more, so
  one of at least \<open>2 ^ 1024 - 2 ^ 970\<close>, gives an infinity; any other number is kept as its
  exact value.
\<close>

definition is_space :: "char \<Rightarrow> bool" where
  "is_space c =
     (c \<in> set [CHR 0x09, CHR 0x0A, CHR 0x0B, CHR 0x0C, CHR 0x0D, CHR 0x20, CHR 0x85, CHR 0xA0])"

definition is_digit :: "char \<Rightarrow> bool" where
  "is_digit c = (c \<in> set ''0123456789'')"

definition digit_value :: "char \<Rightarrow> nat" where
  "digit_value c = length (takeWhile (\<lambda>d. d \<noteq> c) ''0123456789'')"

definition digits_value :: "string \<Rightarrow> nat" where
  "digits_value ds = foldl (\<lambda>n c. 10 * n + digit_value c) 0 ds"

definition ascii_lower :: "char \<Rightarrow> char" where
  "ascii_lower c =
     (case map_of (zip ''ABCDEFGHIJKLMNOPQRSTUVWXYZ'' ''abcdefghijklmnopqrstuvwxyz'') c of
        None \<Rightarrow> c
      | Some l \<Rightarrow> l)"

definition strip_spaces :: "string \<Rightarrow> string" where
  "strip_spaces s = rev (dropWhile is_space (rev (dropWhile is_space s)))"

fun remove_underscores :: "char \<Rightarrow> string \<Rightarrow> string option" where
  "remove_underscores prev [] = (if prev = CHR ''_'' then None else Some [])"
| "remove_underscores prev (c # cs) =
     (if c = CHR ''_''
      then (if is_digit prev then remove_underscores c cs else None)
      else if prev = CHR ''_'' \<and> \<not> is_digit c then None
      else map_option ((#) c) (remove_underscores c cs))"

fun split_sign :: "string \<Rightarrow> bool \<times> string" where
  "split_sign [] = (False, [])"
| "split_sign (c # cs) =
     (if c = CHR ''-'' then (True, cs) else if c = CHR ''+'' then (False, cs)
      else (False, c # cs))"

definition exponent_part :: "string \<Rightarrow> int option" where
  "exponent_part s =
     (case s of
        [] \<Rightarrow> Some 0
      | c # cs \<Rightarrow>
          if c = CHR ''e'' \<or> c = CHR ''E''
          then (let (neg, ds) = split_sign cs
                in if ds \<noteq> [] \<and> list_all is_digit ds
                   then Some (if neg then - int (digits_value ds) else int (digits_value ds))
                   else None)
          else None)"

definition decimal_value :: "nat \<Rightarrow> int \<Rightarrow> real" where
  "decimal_value n e = (if 0 \<le> e then real n * 10 ^ nat e else real n / 10 ^ nat (- e))"

definition number_literal :: "string \<Rightarrow> real option" where
  "number_literal s =
     (let int_digits = takeWhile is_digit s;
          rest = dropWhile is_digit s;
          after_point = (case rest of [] \<Rightarrow> None
                         | c # cs \<Rightarrow> if c = CHR ''.'' then Some cs else None);
          frac_digits = (case after_point of None \<Rightarrow> [] | Some cs \<Rightarrow> takeWhile is_digit cs);
          tail = (case after_point of None \<Rightarrow> rest | Some cs \<Rightarrow> dropWhile is_digit cs)
      in if int_digits = [] \<and> frac_digits = [] then None
         else case exponent_part tail of
                None \<Rightarrow> None
              | Some e \<Rightarrow>
                  Some (decimal_value (digits_value (int_digits @ frac_digits))
                          (e - int (length frac_digits))))"

definition float_overflow :: real where
  "float_overflow = 2 ^ 1024 - 2 ^ 970"

definition to_double :: "bool \<Rightarrow> real \<Rightarrow> pyfloat" where
  "to_double neg v =
     (if float_overflow \<le> v then (if neg then NInf else PInf)
      else Num (if neg then - v else v))"

definition float_of_string :: "string \<Rightarrow> pyfloat option" where
  "float_of_string s =
     (case remove_underscores (CHR 0x00) (strip_spaces s) of
        None \<Rightarrow> None
      | Some t \<Rightarrow>
          (let (neg, u) = split_sign t;
               l = map ascii_lower u
           in if l = ''inf'' \<or> l = ''infinity'' then Some (if neg then NInf else PInf)
              else if l = ''nan'' then Some NaN
              else map_option (to_double neg) (number_literal u)))"

text \<open>
  The builtin \<open>float\<close>: the identity on a float, \<open>TypeError\<close> on \<open>None\<close>, \<open>OverflowError\<close> on
  an int that rounds to \<open>2 ^ 1024\<close> or more in absolute value, and \<open>ValueError\<close> on a string
  that is not a float literal.
\<close>

fun py_float :: "py_value \<Rightarrow> py_error + pyfloat" where
  "py_float PyNone = Inl TypeError"
| "py_float (PyFloat p) = Inr p"
| "py_float (PyInt i) =
     (if float_overflow \<le> \<bar>real_of_int i\<bar> then Inl OverflowError else Inr (Num (real_of_int i)))"
| "py_float (PyStr s) =
     (case float_of_string s of None \<Rightarrow> Inl ValueError | Some p \<Rightarrow> Inr p)"

text \<open>\<open>PriceValidator.validate_price\<close>.\<close>

definition validate_price :: "py_value \<Rightarrow> pyfloat \<Rightarrow> py_error + pyfloat" where
  "validate_price price min_price =
     (if pd_isna price \<or> price = PyNone then Inr min_price
      else case py_float price of
             Inl e \<Rightarrow> Inl e
           | Inr p \<Rightarrow> Inr (pymax min_price p))"

text \<open>
  The other functions of the engine call \<open>validate_price\<close> on a float that they have
  computed. On a float, and on \<open>None\<close>, neither \<open>pd.isna\<close> nor \<open>float\<close> raises, and the
  result of \<open>validate_price\<close> is the following.
\<close>

definition validate_price_float :: "pyfloat option \<Rightarrow> pyfloat \<Rightarrow> pyfloat" where
  "validate_price_float price min_price =
     (case price of
        None \<Rightarrow> min_price
      | Some p \<Rightarrow> if isnan p then min_price else pymax min_price p)"

text \<open>\<open>PriceValidator.validate_stop_loss\<close>.\<close>

definition validate_stop_loss :: "pyfloat \<Rightarrow> pyfloat \<Rightarrow> pyfloat \<Rightarrow> pyfloat" where
  "validate_stop_loss stop_loss current_price atr =
     (let sl1 = validate_price_float (Some stop_loss) default_min_price;
          sl2 = (if fge sl1 (fmul current_price (Num (99 / 100)))
                 then fsub current_price (fmul atr (Num (3 / 2)))
                 else sl1)
      in validate_price_float (Some sl2) default_min_price)"

text \<open>\<open>PriceValidator.validate_take_profit\<close>.\<close>

definition validate_take_profit :: "pyfloat \<Rightarrow> pyfloat \<Rightarrow> pyfloat \<Rightarrow> pyfloat" where
  "validate_take_profit take_profit current_price atr =
     (let tp1 = validate_price_float (Some take_profit) default_min_price
      in if fle tp1 (fmul current_price (Num (102 / 100)))
         then fadd current_price (fmul atr (Num 2))
         else tp1)"

text \<open>\<open>PriceValidator.cap_risk_reward_ratio\<close>; the two message strings of the capped
  result are represented by the flag.\<close>

record rr_display =
  rr_ratio :: pyfloat
  actual_rr :: pyfloat
  capped :: bool

definition cap_risk_reward_ratio :: "pyfloat \<Rightarrow> pyfloat \<Rightarrow> rr_display" where
  "cap_risk_reward_ratio rr max_rr =
     (if fgt rr max_rr
      then \<lparr>rr_ratio = max_rr, actual_rr = round2 rr, capped = True\<rparr>
      else \<lparr>rr_ratio = round2 rr, actual_rr = round2 rr, capped = False\<rparr>)"

text \<open>\<open>PriceValidator.detect_massive_drop\<close>; the values are numpy scalars, so the
  divisions do not raise.\<close>

record massive_drop =
  drop_percent :: pyfloat
  previous_close :: pyfloat
  current_close :: pyfloat
  volume_spike :: bool
  drop_volume_ratio :: pyfloat
  warning :: message
  action :: message

definition detect_massive_drop :: "bar list \<Rightarrow> pyfloat \<Rightarrow> massive_drop option" where
  "detect_massive_drop df threshold =
     (if length df < 2 then None
      else
        (let last_close = close (df ! (length df - 2));
             current = close (last df);
             drop = fmul (fdiv (fsub current last_close) last_close) (Num 100)
         in if flt drop (fneg threshold)
            then
              (let vr = (if 20 \<le> length df
                         then fdiv (volume (last df)) (last (rolling mean 20 (map volume df)))
                         else Num 1)
               in Some \<lparr>drop_percent = round2 drop,
                         previous_close = round2 last_close,
                         current_close = round2 current,
                         volume_spike = fgt vr (Num (3 / 2)),
                         drop_volume_ratio = round2 vr,
                         warning = Msg ''Scadere Masiva Detectata'' [fabs drop],
                         action = Msg ''WAIT 24-48h pentru stabilizare inainte de orice intrare'' []\<rparr>)
            else None))"

section \<open>Risk calculator\<close>

text \<open>The entries of the indicator dictionary that the risk calculator and the signal
  engine read.\<close>

datatype zone = Overbought | Oversold | Neutral_zone
datatype regime = TRENDING | RANGING | NEUTRAL_regime
datatype direction = BULLISH | BEARISH
datatype cross = Bullish_cross | Bearish_cross

record indicators =
  price_current :: pyfloat
  rsi_value :: pyfloat
  rsi_signal :: zone
  stoch_rsi_k :: pyfloat
  stoch_rsi_signal :: zone
  adx_value :: pyfloat
  adx_regime :: regime
  atr_value :: pyfloat
  macd_cross :: cross
  volume_ratio :: pyfloat
  pivots_support :: pyfloat
  pivots_resistance :: pyfloat
  trend_direction :: direction

datatype risk_level = LOW_favourable | MODERATE_acceptable | HIGH_unfavourable_rr | HIGH_wide_stop

text \<open>\<open>RiskCalculator._assess_risk\<close>.\<close>

definition assess_risk :: "pyfloat \<Rightarrow> pyfloat \<Rightarrow> risk_level" where
  "assess_risk rr sl_percent =
     (if fge rr (Num (5 / 2)) \<and> fle sl_percent (Num 5) then LOW_favourable
      else if fge rr (Num (3 / 2)) \<and> fle sl_percent (Num 7) then MODERATE_acceptable
      else if flt rr (Num (3 / 2)) then HIGH_unfavourable_rr
      else HIGH_wide_stop)"

record risk_profile =
  entry_price :: pyfloat
  stop_loss :: pyfloat
  take_profit :: pyfloat
  stop_loss_percent :: pyfloat
  risk_reward_ratio :: pyfloat
  actual_rr_ratio :: pyfloat
  rr_capped :: bool
  position_size_suggestion :: pyfloat
  trailing_stop :: pyfloat
  atr_value_used :: pyfloat
  favorable :: bool
  risk_assessment :: risk_level
  support_used :: pyfloat
  resistance_used :: pyfloat

text \<open>
  \<open>RiskCalculator.calculate_risk_reward\<close>; its first four statements, up to the validated
  stop loss, are \<open>validated_stop_loss\<close>. The values read from the snapshot are Python
  floats, so the two unguarded divisions raise on a zero divisor; the \<open>except\<close> clause logs
  and re-raises. The division \<open>reward / risk\<close> is guarded by \<open>risk > 0\<close>.
\<close>

definition validated_stop_loss :: "indicators \<Rightarrow> pyfloat" where
  "validated_stop_loss ind =
     (let current_price = price_current ind;
          atr = atr_value ind;
          sl_atr_based = fsub current_price (fmul atr (Num (3 / 2)));
          sl_support_based = fsub (pivots_support ind) (fmul atr (Num (1 / 2)))
      in validate_stop_loss (pymax sl_atr_based sl_support_based) current_price atr)"

definition calculate_risk_reward :: "indicators \<Rightarrow> py_error + risk_profile" where
  "calculate_risk_reward ind =
     (let current_price = price_current ind;
          atr = atr_value ind;
          support = pivots_support ind;
          resistance = pivots_resistance ind;
          sl0 = validated_stop_loss ind
      in case py_div (fsub current_price sl0) current_price of
           Inl e \<Rightarrow> Inl e
         | Inr q \<Rightarrow>
          (let sl_percent0 = fmul q (Num 100);
               too_wide = fgt sl_percent0 (Num 10);
               sl = (if too_wide then fmul current_price (Num (9 / 10)) else sl0);
               sl_percent = (if too_wide then Num 10 else sl_percent0);
               tp0 = (if fge current_price (fmul resistance (Num (98 / 100)))
                      then fadd current_price (fmul atr (Num 3))
                      else fsub resistance (fmul resistance (Num (2 / 1000))));
               tp = validate_take_profit tp0 current_price atr;
               risk0 = fsub current_price sl;
               reward = fsub tp current_price;
               risk = (if fle risk0 (Num 0) then fmul atr (Num (3 / 2)) else risk0);
               rr = (if fgt risk (Num 0) then fdiv reward risk else Num 0);
               rr_display_data = cap_risk_reward_ratio rr (Num 10)
           in case py_div (Num 1) sl_percent of
                Inl e \<Rightarrow> Inl e
              | Inr q1 \<Rightarrow>
               (let position_size_percent = fmul q1 (Num 100);
                    ts = validate_price_float (Some (fsub current_price (fmul atr (Num 2))))
                           default_min_price
                in Inr \<lparr>entry_price = round2 current_price,
                        stop_loss = round2 sl,
                        take_profit = round2 tp,
                        stop_loss_percent = round2 sl_percent,
                        risk_reward_ratio = rr_ratio rr_display_data,
                        actual_rr_ratio = actual_rr rr_display_data,
                        rr_capped = capped rr_display_data,
                        position_size_suggestion =
                          round2 (pymin position_size_percent (Num 100)),
                        trailing_stop = round2 ts,
                        atr_value_used = round2 atr,
                        favorable = fge rr (Num (3 / 2)),
                        risk_assessment = assess_risk rr sl_percent,
                        support_used = round2 support,
                        resistance_used = round2 resistance\<rparr>)))"

section \<open>Indicator calculator\<close>

text \<open>True range, shared by \<open>calculate_atr\<close> and \<open>calculate_adx\<close>.\<close>

definition true_range :: "bar list \<Rightarrow> series" where
  "true_range df =
     (let h = map high df; l = map low df; pc = shift (map close df);
          tr1 = map2 fsub h l;
          tr2 = map fabs (map2 fsub h pc);
          tr3 = map fabs (map2 fsub l pc)
      in map2 nanmax (map2 nanmax tr1 tr2) tr3)"

text \<open>\<open>TechnicalAnalyzer.calculate_atr\<close>.\<close>

definition calculate_atr :: "nat \<Rightarrow> bar list \<Rightarrow> series" where
  "calculate_atr period df = rolling mean period (true_range df)"

text \<open>\<open>TechnicalAnalyzer.calculate_rsi\<close>.\<close>

definition calculate_rsi :: "nat \<Rightarrow> bar list \<Rightarrow> series" where
  "calculate_rsi period df =
     (let delta = diff (map close df);
          gain = rolling mean period
                   (where_or_zero (map (\<lambda>d. fgt d (Num 0)) delta) delta);
          loss = rolling mean period
                   (map fneg (where_or_zero (map (\<lambda>d. flt d (Num 0)) delta) delta));
          rs = map2 fdiv gain loss
      in map (\<lambda>r. fsub (Num 100) (fdiv (Num 100) (fadd (Num 1) r))) rs)"

text \<open>\<open>TechnicalAnalyzer.calculate_stoch_rsi\<close>: the pair of the K and the D series.\<close>

definition stoch_rsi_raw :: "nat \<Rightarrow> series \<Rightarrow> series" where
  "stoch_rsi_raw period rsi =
     (let lo = rolling list_min period rsi; hi = rolling list_max period rsi
      in map (\<lambda>q. fmul q (Num 100)) (map2 fdiv (map2 fsub rsi lo) (map2 fsub hi lo)))"

definition calculate_stoch_rsi :: "nat \<Rightarrow> nat \<Rightarrow> nat \<Rightarrow> bar list \<Rightarrow> series \<times> series" where
  "calculate_stoch_rsi period smooth_k smooth_d df =
     (let k = rolling mean smooth_k (stoch_rsi_raw period (calculate_rsi period df))
      in (k, rolling mean smooth_d k))"

text \<open>\<open>TechnicalAnalyzer.calculate_adx\<close>: the ADX, +DI and -DI series.\<close>

definition directional_index :: "nat \<Rightarrow> series \<Rightarrow> series \<Rightarrow> series" where
  "directional_index period dm atr =
     map (\<lambda>q. fmul (Num 100) q) (map2 fdiv (rolling mean period dm) atr)"

definition dx_of :: "pyfloat \<Rightarrow> pyfloat \<Rightarrow> pyfloat" where
  "dx_of p n = fdiv (fmul (Num 100) (fabs (fsub p n))) (fadd p n)"

definition calculate_adx :: "nat \<Rightarrow> bar list \<Rightarrow> series \<times> series \<times> series" where
  "calculate_adx period df =
     (let h = map high df; l = map low df;
          atr = rolling mean period (true_range df);
          up_move = map2 fsub h (shift h);
          down_move = map2 fsub (shift l) l;
          pos_dm = where_or_zero
                     (map2 (\<lambda>u d. fgt u d \<and> fgt u (Num 0)) up_move down_move) up_move;
          neg_dm = where_or_zero
                     (map2 (\<lambda>d u. fgt d u \<and> fgt d (Num 0)) down_move up_move) down_move;
          pos_di = directional_index period pos_dm atr;
          neg_di = directional_index period neg_dm atr;
          dx = map2 dx_of pos_di neg_di
      in (rolling mean period dx, pos_di, neg_di))"

text \<open>\<open>TechnicalAnalyzer.calculate_donchian_channel\<close>: the three levels of the last bar
  (the chart overlay is not modelled).\<close>

record donchian =
  upper :: pyfloat
  lower :: pyfloat
  middle :: pyfloat

definition calculate_donchian_channel :: "nat \<Rightarrow> bar list \<Rightarrow> donchian" where
  "calculate_donchian_channel period df =
     (let high_channel = map (\<lambda>x. validate_price_float (Some x) default_min_price)
                           (rolling list_max period (map high df));
          low_channel = map (\<lambda>x. validate_price_float (Some x) default_min_price)
                          (rolling list_min period (map low df));
          middle_channel = map (\<lambda>s. fdiv s (Num 2)) (map2 fadd high_channel low_channel)
      in \<lparr>upper = round2 (last high_channel),
          lower = round2 (last low_channel),
          middle = round2 (last middle_channel)\<rparr>)"

text \<open>
  \<open>TechnicalAnalyzer.calculate_all_indicators\<close>, restricted to the oscillator, range and
  channel entries of the snapshot. The moving averages, MACD, Heikin-Ashi candles, gaps,
  pivots, fractals and volume entries are computed independently of these. Reading the last
  row of an empty frame raises; the ATR percentage divides two Python floats.
\<close>

record snapshot =
  snapshot_price :: pyfloat
  snapshot_rsi :: pyfloat
  snapshot_stoch_k :: pyfloat
  snapshot_stoch_d :: pyfloat
  snapshot_adx :: pyfloat
  snapshot_regime :: regime
  snapshot_atr :: pyfloat
  snapshot_atr_percent :: pyfloat
  snapshot_donchian :: donchian

definition calculate_all_indicators :: "bar list \<Rightarrow> py_error + snapshot" where
  "calculate_all_indicators df =
     (if df = [] then Inl IndexError
      else
        (let rsi = calculate_rsi 14 df;
             stoch = calculate_stoch_rsi 14 3 3 df;
             adx = fst (calculate_adx 14 df);
             atr = calculate_atr 14 df;
             current_price = close (last df)
         in case py_div (last atr) current_price of
              Inl e \<Rightarrow> Inl e
            | Inr q \<Rightarrow>
                Inr \<lparr>snapshot_price = round2 current_price,
                     snapshot_rsi = round2 (last rsi),
                     snapshot_stoch_k = round2 (last (fst stoch)),
                     snapshot_stoch_d = round2 (last (snd stoch)),
                     snapshot_adx = round2 (last adx),
                     snapshot_regime =
                       (if fgt (last adx) (Num 25) then TRENDING
                        else if flt (last adx) (Num 20) then RANGING else NEUTRAL_regime),
                     snapshot_atr = round2 (last atr),
                     snapshot_atr_percent = round2 (fmul q (Num 100)),
                     snapshot_donchian = calculate_donchian_channel 20 df\<rparr>))"

section \<open>Protection rule modules\<close>

datatype signal = BUY | SELL | HOLD | WAIT | NEUTRAL | LIQUIDATE

text \<open>The alert dictionaries, by type tag: message and action, then the override entries
  that the type carries.\<close>

datatype alert =
    Sell_trigger message message signal int
  | Entry_block message message
  | Volume_divergence message message pyfloat
  | Financial_health_block message message signal
  | Earnings_warning message message bool signal int

text \<open>\<open>OverboughtProtector.check_sell_trigger\<close>.\<close>

definition check_sell_trigger :: "pyfloat \<Rightarrow> pyfloat \<Rightarrow> pyfloat \<Rightarrow> alert option" where
  "check_sell_trigger rsi k vr =
     (if fgt rsi (Num 70) \<and> fgt k (Num 90) \<and> flt vr (Num (1 / 2))
      then Some (Sell_trigger (Msg ''SELL_TRIGGER ACTIVAT: Zone de OVERBOUGHT EXTREM'' [rsi, k, vr])
                   (Msg ''SELL - Take Profit acum'' []) SELL 85)
      else None)"

text \<open>\<open>OverboughtProtector.check_entry_block\<close>.\<close>

definition check_entry_block :: "pyfloat \<Rightarrow> alert option" where
  "check_entry_block rr =
     (if flt rr (Num 1)
      then Some (Entry_block (Msg ''BLOCAT: Raport R/R subunitar'' [rr])
                   (Msg ''NU CUMPARA - Asteptati setup mai bun'' []))
      else None)"

text \<open>\<open>HighRiskOptimizer.check_volume_divergence\<close>.\<close>

definition check_volume_divergence :: "pyfloat \<Rightarrow> pyfloat \<Rightarrow> alert option" where
  "check_volume_divergence vr price_change =
     (if flt vr (Num (8 / 10)) \<and> fgt price_change (Num 0)
      then Some (Volume_divergence (Msg ''DIVERGENTA DE VOLUM'' [vr, price_change])
                   (Msg ''NU CUMPARA - Asteptati confirmare cu volum mare'' []) (Num 30))
      else None)"

text \<open>The fundamentals dictionary: an entry is absent, \<open>None\<close> or a float.\<close>

record fundamentals =
  free_cash_flow :: "pyfloat option"
  debt_to_equity :: "pyfloat option"

text \<open>\<open>float(x) if x else 0\<close>.\<close>

definition float_or_zero :: "pyfloat option \<Rightarrow> pyfloat" where
  "float_or_zero v = (case v of None \<Rightarrow> Num 0 | Some x \<Rightarrow> if truthy x then x else Num 0)"

text \<open>\<open>HighRiskOptimizer.check_financial_health_block\<close>.\<close>

definition check_financial_health_block :: "fundamentals option \<Rightarrow> alert option" where
  "check_financial_health_block fundamentals =
     (case fundamentals of
        None \<Rightarrow> None
      | Some f \<Rightarrow>
         (let fcf = float_or_zero (free_cash_flow f); dte = float_or_zero (debt_to_equity f)
          in if flt fcf (Num 0) \<and> fgt dte (Num 200)
             then Some (Financial_health_block
                          (Msg ''BLOCARE: SANATATE FINANCIARA DEZASTRUOASA'' [fcf, dte])
                          (Msg ''BLOCARE BUY/HOLD - Fortat NEUTRAL sau LIQUIDATE'' [])
                          (if flt fcf (Num (- 1000000000)) then LIQUIDATE else NEUTRAL))
             else None))"

text \<open>\<open>HighRiskOptimizer.check_earnings_proximity\<close>.\<close>

definition check_earnings_proximity :: "int option \<Rightarrow> alert option" where
  "check_earnings_proximity days_until_earnings =
     (case days_until_earnings of
        None \<Rightarrow> None
      | Some d \<Rightarrow>
          if d \<le> 7
          then Some (Earnings_warning (Msg ''EARNINGS ALERT'' [Num (of_int d)])
                       (Msg ''Reducere expunere cu 50% INAINTE de earnings'' []) True WAIT 20)
          else None)"

section \<open>Signal decision engine\<close>

record market_context =
  vix_high_volatility :: bool

record signal_decision =
  signal :: signal
  confidence :: int
  reasons :: "message list"
  warnings :: "message list"
  override_reason :: "message option"
  advanced_alerts :: "alert list option"
  massive_drop_info :: "massive_drop option"

text \<open>The local variables that \<open>generate_signal\<close> updates on its way down the cascade.\<close>

record engine_state =
  score :: pyfloat
  reason_list :: "message list"
  warning_list :: "message list"
  critical_blocks :: "message list"
  alert_list :: "alert list"

definition initial_state :: engine_state where
  "initial_state =
     \<lparr>score = Num 0, reason_list = [], warning_list = [], critical_blocks = [], alert_list = []\<rparr>"

text \<open>Check -1, the daily price drop penalty.\<close>

definition daily_drop_penalty :: "pyfloat \<Rightarrow> engine_state \<Rightarrow> engine_state" where
  "daily_drop_penalty price_change_percent st =
     (if flt price_change_percent (Num (- 8))
      then
        (let drop_penalty = pymin (fmul (fabs price_change_percent) (Num 5)) (Num 60)
         in st\<lparr>score := fsub (score st) drop_penalty,
                critical_blocks := critical_blocks st @
                  [Msg ''PRABUSIRE ZILNICA'' [price_change_percent, drop_penalty]],
                warning_list := warning_list st @
                  [Msg ''ATENTIE: Cadere zilnica'' [price_change_percent]]\<rparr>)
      else st)"

text \<open>\<open>fundamentals and fundamentals.get('debt_to_equity')\<close>: the entry when it is present
  and true.\<close>

definition truthy_debt_to_equity :: "fundamentals option \<Rightarrow> pyfloat option" where
  "truthy_debt_to_equity fundamentals =
     (case fundamentals of
        None \<Rightarrow> None
      | Some f \<Rightarrow>
         (case debt_to_equity f of
            None \<Rightarrow> None
          | Some dte \<Rightarrow> if truthy dte then Some dte else None))"

text \<open>Check -0.5, the debt/equity penalty on the normalised ratio.\<close>

definition debt_equity_penalty :: "fundamentals option \<Rightarrow> engine_state \<Rightarrow> engine_state" where
  "debt_equity_penalty fundamentals st =
     (case truthy_debt_to_equity fundamentals of
        None \<Rightarrow> st
      | Some dte \<Rightarrow>
         (let dte_ratio = (if fgt dte (Num 100) then fdiv dte (Num 100) else dte)
          in if fgt dte_ratio (Num 10)
             then st\<lparr>score := fsub (score st) (Num 30),
                     critical_blocks := critical_blocks st @
                       [Msg ''DEBT/EQUITY CRITIC'' [dte, dte_ratio, Num 30]],
                     warning_list := warning_list st @
                       [Msg ''RISC FINANCIAR EXTREM: Debt/Equity'' [dte_ratio]]\<rparr>
             else if fgt dte_ratio (Num 3)
             then st\<lparr>score := fsub (score st) (Num 20),
                     warning_list := warning_list st @
                       [Msg ''Debt/Equity RIDICAT'' [dte_ratio]]\<rparr>
             else st))"

text \<open>The additional check on the raw value, kept for backward compatibility.\<close>

definition debt_equity_extreme_check :: "fundamentals option \<Rightarrow> engine_state \<Rightarrow> engine_state" where
  "debt_equity_extreme_check fundamentals st =
     (case truthy_debt_to_equity fundamentals of
        None \<Rightarrow> st
      | Some dte_check \<Rightarrow>
          if fgt dte_check (Num 300)
          then st\<lparr>critical_blocks := critical_blocks st @
                    [Msg ''Debt/Equity EXTREM DE RIDICAT'' [dte_check]],
                  score := fsub (score st) (Num 30),
                  warning_list := warning_list st @
                    [Msg ''RISC FINANCIAR CRITIC: Debt/Equity'' [dte_check]]\<rparr>
          else st)"

text \<open>Check 2, the entry block flag.\<close>

definition entry_block_check :: "alert option \<Rightarrow> engine_state \<Rightarrow> engine_state" where
  "entry_block_check entry_block st =
     (case entry_block of
        Some (Entry_block m a) \<Rightarrow>
          st\<lparr>critical_blocks := critical_blocks st @ [m],
             alert_list := alert_list st @ [Entry_block m a]\<rparr>
      | _ \<Rightarrow> st)"

text \<open>Check 3, the volume divergence penalty.\<close>

definition volume_divergence_check :: "alert option \<Rightarrow> engine_state \<Rightarrow> engine_state" where
  "volume_divergence_check volume_divergence st =
     (case volume_divergence of
        Some (Volume_divergence m a penalty) \<Rightarrow>
          st\<lparr>warning_list := warning_list st @ [m],
             score := fsub (score st) penalty,
             alert_list := alert_list st @ [Volume_divergence m a penalty]\<rparr>
      | _ \<Rightarrow> st)"

text \<open>The additional debt/equity check that follows the financial health query.\<close>

definition debt_equity_massive_check :: "fundamentals option \<Rightarrow> engine_state \<Rightarrow> engine_state" where
  "debt_equity_massive_check fundamentals st =
     (case truthy_debt_to_equity fundamentals of
        None \<Rightarrow> st
      | Some dte \<Rightarrow>
          if fgt dte (Num 300)
          then st\<lparr>critical_blocks := critical_blocks st @
                    [Msg ''Debt/Equity EXTREM DE RIDICAT (%)'' [dte]],
                  score := fsub (score st) (Num 50),
                  warning_list := warning_list st @
                    [Msg ''RISC FINANCIAR CRITIC: Debt/Equity (%)'' [dte]]\<rparr>
          else st)"

text \<open>The scoring logic, statement by statement: market regime, trend, RSI, Stochastic
  RSI, MACD, VIX context and the two price level warnings.\<close>

definition score_regime :: "indicators \<Rightarrow> engine_state \<Rightarrow> engine_state" where
  "score_regime ind st =
     (if adx_regime ind = RANGING
      then st\<lparr>warning_list := warning_list st @
                [Msg ''Piata laterala (ADX < 20) - semnale nesigure'' []],
              score := fsub (score st) (Num 15)\<rparr>
      else st)"

definition score_trend :: "indicators \<Rightarrow> engine_state \<Rightarrow> engine_state" where
  "score_trend ind st =
     (if trend_direction ind = BULLISH
      then st\<lparr>score := fadd (score st) (Num 20),
              reason_list := reason_list st @ [Msg ''Trend bullish pe EMA 50'' []]\<rparr>
      else st\<lparr>score := fsub (score st) (Num 20),
              reason_list := reason_list st @ [Msg ''Trend bearish pe EMA 50'' []]\<rparr>)"

definition score_rsi :: "indicators \<Rightarrow> engine_state \<Rightarrow> engine_state" where
  "score_rsi ind st =
     (if rsi_signal ind = Oversold
      then st\<lparr>score := fadd (score st) (Num 15),
              reason_list := reason_list st @ [Msg ''RSI supravandut - posibila revenire'' []]\<rparr>
      else if rsi_signal ind = Overbought
      then st\<lparr>score := fsub (score st) (Num 15),
              warning_list := warning_list st @ [Msg ''RSI supracumparat - risc corectie'' []]\<rparr>
      else st)"

definition score_stoch_rsi :: "indicators \<Rightarrow> engine_state \<Rightarrow> engine_state" where
  "score_stoch_rsi ind st =
     (if fgt (stoch_rsi_k ind) (Num 85)
      then st\<lparr>score := fsub (score st) (Num 30),
              warning_list := warning_list st @
                [Msg ''Stoch RSI EXTREM supracumparat - NU CUMPARA'' [stoch_rsi_k ind]]\<rparr>
      else if stoch_rsi_signal ind = Oversold
      then st\<lparr>score := fadd (score st) (Num 15),
              reason_list := reason_list st @ [Msg ''Stoch RSI supravandut - oportunitate'' []]\<rparr>
      else st)"

definition score_macd :: "indicators \<Rightarrow> engine_state \<Rightarrow> engine_state" where
  "score_macd ind st =
     (if macd_cross ind = Bullish_cross
      then st\<lparr>score := fadd (score st) (Num 10),
              reason_list := reason_list st @ [Msg ''MACD bullish'' []]\<rparr>
      else st\<lparr>score := fsub (score st) (Num 10)\<rparr>)"

definition score_vix :: "market_context \<Rightarrow> engine_state \<Rightarrow> engine_state" where
  "score_vix mc st =
     (if vix_high_volatility mc
      then st\<lparr>warning_list := warning_list st @ [Msg ''Volatilitate ridicata (VIX)'' []],
              score := fsub (score st) (Num 15)\<rparr>
      else st)"

definition level_warnings :: "indicators \<Rightarrow> engine_state \<Rightarrow> engine_state" where
  "level_warnings ind st =
     (let resistance = pivots_resistance ind;
          support = pivots_support ind;
          st1 = (if fgt (price_current ind) (fmul resistance (Num (98 / 100)))
                 then st\<lparr>warning_list := warning_list st @
                           [Msg ''Pret la rezistenta'' [resistance]]\<rparr>
                 else st)
      in if flt (price_current ind) (fmul support (Num (102 / 100)))
         then st1\<lparr>warning_list := warning_list st1 @ [Msg ''Pret la suport'' [support]]\<rparr>
         else st1)"

definition scoring :: "indicators \<Rightarrow> market_context \<Rightarrow> engine_state \<Rightarrow> engine_state" where
  "scoring ind mc st =
     level_warnings ind
       (score_vix mc
          (score_macd ind (score_stoch_rsi ind (score_rsi ind (score_trend ind (score_regime ind st))))))"

text \<open>\<open>max(0, min(100, 50 + score))\<close> and the conservative mapping to a signal.\<close>

definition clamp_confidence :: "pyfloat \<Rightarrow> pyfloat" where
  "clamp_confidence sc = pymax (Num 0) (pymin (Num 100) (fadd (Num 50) sc))"

definition signal_of :: "pyfloat \<Rightarrow> regime \<Rightarrow> signal" where
  "signal_of conf rg =
     (if fge conf (Num 70) \<and> rg = TRENDING then BUY
      else if fle conf (Num 30) then SELL
      else if fge conf (Num 50) then HOLD
      else WAIT)"

definition final_decision :: "regime \<Rightarrow> engine_state \<Rightarrow> py_error + signal_decision" where
  "final_decision rg st =
     (let conf = clamp_confidence (score st)
      in case py_int conf of
           Inl e \<Rightarrow> Inl e
         | Inr c \<Rightarrow>
             Inr \<lparr>signal = signal_of conf rg,
                  confidence = c,
                  reasons = reason_list st,
                  warnings = warning_list st,
                  override_reason = None,
                  advanced_alerts = (if alert_list st = [] then None else Some (alert_list st)),
                  massive_drop_info = None\<rparr>)"

text \<open>The forced decision of an override.\<close>

definition override_decision ::
  "signal \<Rightarrow> int \<Rightarrow> message list \<Rightarrow> message list \<Rightarrow> message \<Rightarrow> alert list option \<Rightarrow> signal_decision"
where
  "override_decision sg c rs ws why alerts =
     \<lparr>signal = sg, confidence = c, reasons = rs, warnings = ws,
      override_reason = Some why, advanced_alerts = alerts, massive_drop_info = None\<rparr>"

text \<open>The engine state after the penalties and checks that precede the financial health
  block (the queries themselves are made by \<open>generate_signal\<close>).\<close>

definition state_before_blocks ::
  "fundamentals option \<Rightarrow> pyfloat \<Rightarrow> alert option \<Rightarrow> alert option \<Rightarrow> engine_state"
where
  "state_before_blocks fundamentals price_change_percent entry_block volume_divergence =
     (let st1 = daily_drop_penalty price_change_percent initial_state;
          st2 = debt_equity_penalty fundamentals st1;
          st3 = debt_equity_extreme_check fundamentals st2;
          st4 = entry_block_check entry_block st3;
          st5 = volume_divergence_check volume_divergence st4
      in debt_equity_massive_check fundamentals st5)"

text \<open>\<open>TechnicalAnalyzer.generate_signal\<close>. The source assigns 0 to
  \<open>price_change_percent\<close> before the volume divergence query; the parameter keeps its
  value only for the daily drop penalty.\<close>

definition generate_signal ::
  "indicators \<Rightarrow> market_context \<Rightarrow> (string \<rightharpoonup> pyfloat) \<Rightarrow> int option \<Rightarrow> fundamentals option
     \<Rightarrow> massive_drop option \<Rightarrow> pyfloat \<Rightarrow> py_error + signal_decision"
where
  "generate_signal ind mc risk_data earnings_days fundamentals massive_drop_detected
     price_change_percent =
     (case massive_drop_detected of
        Some md \<Rightarrow>
          Inr \<lparr>signal = WAIT, confidence = 10, reasons = [warning md], warnings = [action md],
               override_reason = Some (Msg ''MASSIVE DROP DETECTED'' [drop_percent md]),
               advanced_alerts = None, massive_drop_info = Some md\<rparr>
      | None \<Rightarrow>
         (let vr = volume_ratio ind
          in case check_sell_trigger (rsi_value ind) (stoch_rsi_k ind) vr of
               Some (Sell_trigger m a sg c) \<Rightarrow>
                 Inr (override_decision sg c [m] [a]
                        (Msg ''SELL_TRIGGER ACTIVAT - Overbought Extrem'' [])
                        (Some [Sell_trigger m a sg c]))
             | _ \<Rightarrow>
              (let rr = (case risk_data ''risk_reward_ratio'' of None \<Rightarrow> Num 0 | Some r \<Rightarrow> r);
                   entry_block = check_entry_block rr;
                   price_change_percent_reset = Num 0;
                   volume_divergence = check_volume_divergence vr price_change_percent_reset;
                   st = state_before_blocks fundamentals price_change_percent
                          entry_block volume_divergence
               in case check_financial_health_block fundamentals of
                    Some (Financial_health_block m a sg) \<Rightarrow>
                      Inr (override_decision sg 15 [m] [a]
                             (Msg ''FINANCIAL HEALTH BLOCK - Sanatate financiara dezastruoasa'' [])
                             (Some [Financial_health_block m a sg]))
                  | _ \<Rightarrow>
                   (case check_earnings_proximity earnings_days of
                      Some (Earnings_warning m a True sg c) \<Rightarrow>
                        Inr (override_decision sg c [m] [a]
                               (Msg ''EARNINGS PROXIMITY - High Volatility Warning'' [])
                               (Some [Earnings_warning m a True sg c]))
                    | _ \<Rightarrow>
                       if flt rr (Num 1) \<and> entry_block = None
                       then Inr (override_decision NEUTRAL 20
                                   [Msg ''Setup tehnic nefavorabil'' []]
                                   (critical_blocks st @ [Msg ''Raport R/R subunitar'' [rr]])
                                   (Msg ''R/R < 1.0 - FORTAT NEUTRAL'' []) None)
                       else if flt vr (Num (1 / 2)) \<and> volume_divergence = None
                       then Inr (override_decision NEUTRAL 20
                                   [Msg ''Lipsa confirmare volum'' []]
                                   (critical_blocks st @
                                      [Msg ''Volum critic scazut - sub 0.5x media'' [vr]])
                                   (Msg ''Volum < 0.5x - FORTAT NEUTRAL'' []) None)
                       else final_decision (adx_regime ind) (scoring ind mc st)))))"

section \<open>Entry optimizer\<close>

fun round1 :: "pyfloat \<Rightarrow> pyfloat" where
  "round1 (Num a) = Num (of_int (round_half_even (a * 10)) / 10)"
| "round1 x = x"

datatype entry_level = EMA_20 | EMA_50 | Support_Pivot

record entry_option =
  level :: entry_level
  price :: pyfloat
  distance_percent :: pyfloat

record optimization =
  optimized :: bool
  current_rr :: pyfloat
  ideal_entry :: pyfloat
  ideal_sl :: pyfloat
  ideal_tp :: pyfloat
  ideal_rr :: pyfloat
  entry_level :: "entry_level option"
  pullback_distance :: "pyfloat option"
  target_missed_warning :: bool
  stabilization_warning :: bool
  success :: bool

text \<open>One \<open>if ... : potential_entries.append(...)\<close> block: the level is appended when it lies
  below the given fraction of the price. The distance divides two Python floats.\<close>

definition pullback_option ::
  "entry_level \<Rightarrow> pyfloat \<Rightarrow> pyfloat \<Rightarrow> pyfloat \<Rightarrow> py_error + entry_option list"
where
  "pullback_option lv fraction current_price p =
     (if flt p (fmul current_price fraction)
      then (case py_div (fsub current_price p) current_price of
              Inl e \<Rightarrow> Inl e
            | Inr q \<Rightarrow> Inr [\<lparr>level = lv, price = p, distance_percent = fmul q (Num 100)\<rparr>])
      else Inr [])"

text \<open>\<open>potential_entries.sort(key=lambda x: x['distance_percent'])\<close>: a stable sort.\<close>

fun insert_by_distance :: "entry_option \<Rightarrow> entry_option list \<Rightarrow> entry_option list" where
  "insert_by_distance x [] = [x]"
| "insert_by_distance x (y # ys) =
     (if flt (distance_percent y) (distance_percent x)
      then y # insert_by_distance x ys
      else x # y # ys)"

definition sort_by_distance :: "entry_option list \<Rightarrow> entry_option list" where
  "sort_by_distance xs = foldr insert_by_distance xs []"

text \<open>The stop, risk/reward and acceptance test of one loop iteration.\<close>

definition option_sl :: "pyfloat \<Rightarrow> entry_option \<Rightarrow> pyfloat" where
  "option_sl atr e =
     (let sl = fsub (price e) (fmul atr (Num (3 / 2)))
      in if fle sl (Num (1 / 100)) then fmul (price e) (Num (97 / 100)) else sl)"

definition option_rr :: "pyfloat \<Rightarrow> pyfloat \<Rightarrow> entry_option \<Rightarrow> pyfloat option" where
  "option_rr atr resistance e =
     (let risk = fsub (price e) (option_sl atr e); reward = fsub resistance (price e)
      in if fgt risk (Num 0) then Some (fdiv reward risk) else None)"

definition acceptable :: "pyfloat \<Rightarrow> pyfloat \<Rightarrow> pyfloat \<Rightarrow> entry_option \<Rightarrow> bool" where
  "acceptable target_rr atr resistance e =
     (case option_rr atr resistance e of None \<Rightarrow> False | Some rr \<Rightarrow> fge rr target_rr)"

text \<open>The \<open>for\<close> loop with its \<open>break\<close>: the first acceptable option.\<close>

fun best_entry :: "pyfloat \<Rightarrow> pyfloat \<Rightarrow> pyfloat \<Rightarrow> entry_option list \<Rightarrow> entry_option option" where
  "best_entry target_rr atr resistance [] = None"
| "best_entry target_rr atr resistance (e # es) =
     (if acceptable target_rr atr resistance e then Some e
      else best_entry target_rr atr resistance es)"

text \<open>\<open>EntryOptimizer.optimize_entry\<close>, with the target of the constructor as first
  argument.\<close>

definition optimize_entry ::
  "pyfloat \<Rightarrow> pyfloat \<Rightarrow> pyfloat \<Rightarrow> pyfloat \<Rightarrow> pyfloat \<Rightarrow> pyfloat \<Rightarrow> pyfloat \<Rightarrow> pyfloat
     \<Rightarrow> py_error + optimization"
where
  "optimize_entry target_rr current_price ema_20 ema_50 support resistance atr rr_now =
     (if fge rr_now target_rr
      then Inr \<lparr>optimized = False, current_rr = round2 rr_now, ideal_entry = current_price,
                ideal_sl = fsub current_price (fmul atr (Num (3 / 2))), ideal_tp = resistance,
                ideal_rr = rr_now, entry_level = None, pullback_distance = None,
                target_missed_warning = False, stabilization_warning = False, success = False\<rparr>
      else
        (case pullback_option EMA_20 (Num (98 / 100)) current_price ema_20 of
           Inl e \<Rightarrow> Inl e
         | Inr o1 \<Rightarrow>
          (case pullback_option EMA_50 (Num (95 / 100)) current_price ema_50 of
             Inl e \<Rightarrow> Inl e
           | Inr o2 \<Rightarrow>
            (case pullback_option Support_Pivot (Num (97 / 100)) current_price support of
               Inl e \<Rightarrow> Inl e
             | Inr o3 \<Rightarrow>
              (let potential_entries = o1 @ o2 @ o3
               in if potential_entries = []
                  then Inr \<lparr>optimized = False, current_rr = round2 rr_now,
                            ideal_entry = current_price,
                            ideal_sl = fsub support (fmul atr (Num (1 / 2))),
                            ideal_tp = resistance, ideal_rr = rr_now, entry_level = None,
                            pullback_distance = None, target_missed_warning = False,
                            stabilization_warning = True, success = False\<rparr>
                  else
                    (let sorted_entries = sort_by_distance potential_entries
                     in case best_entry target_rr atr resistance sorted_entries of
                          None \<Rightarrow>
                           (let closest = hd sorted_entries;
                                sl = fsub (price closest) (fmul atr (Num (3 / 2)));
                                risk = fsub (price closest) sl;
                                reward = fsub resistance (price closest);
                                rr = (if fgt risk (Num 0) then fdiv reward risk else Num 0)
                            in Inr \<lparr>optimized = True, current_rr = round2 rr_now,
                                    ideal_entry = round2 (price closest), ideal_sl = round2 sl,
                                    ideal_tp = round2 resistance, ideal_rr = round2 rr,
                                    entry_level = Some (level closest),
                                    pullback_distance = Some (round1 (distance_percent closest)),
                                    target_missed_warning = True, stabilization_warning = False,
                                    success = False\<rparr>)
                        | Some b \<Rightarrow>
                            Inr \<lparr>optimized = True, current_rr = round2 rr_now,
                                 ideal_entry = round2 (price b),
                                 ideal_sl = round2 (option_sl atr b),
                                 ideal_tp = round2 resistance,
                                 ideal_rr = round2 (fdiv (fsub resistance (price b))
                                                      (fsub (price b) (option_sl atr b))),
                                 entry_level = Some (level b),
                                 pullback_distance = Some (round1 (distance_percent b)),
                                 target_missed_warning = False, stabilization_warning = False,
                                 success = True\<rparr>))))))"

section \<open>Value classes and closed forms\<close>

text \<open>The classes of values that the indicator series range over.\<close>

fun nonneg :: "pyfloat \<Rightarrow> bool" where
  "nonneg (Num a) = (0 \<le> a)"
| "nonneg _ = False"

fun nonneg_or_nan :: "pyfloat \<Rightarrow> bool" where
  "nonneg_or_nan (Num a) = (0 \<le> a)"
| "nonneg_or_nan NaN = True"
| "nonneg_or_nan _ = False"

fun nonneg_nan_or_inf :: "pyfloat \<Rightarrow> bool" where
  "nonneg_nan_or_inf (Num a) = (0 \<le> a)"
| "nonneg_nan_or_inf NaN = True"
| "nonneg_nan_or_inf PInf = True"
| "nonneg_nan_or_inf NInf = False"

fun percent_or_nan :: "pyfloat \<Rightarrow> bool" where
  "percent_or_nan (Num a) = (0 \<le> a \<and> a \<le> 100)"
| "percent_or_nan NaN = True"
| "percent_or_nan _ = False"

fun finite_or_nan :: "pyfloat \<Rightarrow> bool" where
  "finite_or_nan (Num a) = True"
| "finite_or_nan NaN = True"
| "finite_or_nan _ = False"

text \<open>A well-formed bar: finite prices, and the low not above the high.\<close>

definition well_formed_bar :: "bar \<Rightarrow> bool" where
  "well_formed_bar b =
     (is_finite (high b) \<and> is_finite (low b) \<and> is_finite (close b) \<and> fle (low b) (high b))"

text \<open>The points that the daily drop penalty takes off, as a real number.\<close>

fun drop_penalty_of :: "pyfloat \<Rightarrow> real" where
  "drop_penalty_of (Num x) = (if x < - 8 then min (\<bar>x\<bar> * 5) 60 else 0)"
| "drop_penalty_of NInf = 60"
| "drop_penalty_of PInf = 0"
| "drop_penalty_of NaN = 0"

text \<open>The debt/equity ratio after normalisation of the percentage form.\<close>

definition normalised_ratio :: "real \<Rightarrow> real" where
  "normalised_ratio x = (if 100 < x then x / 100 else x)"

text \<open>The points that the scoring logic adds.\<close>

definition scoring_delta :: "indicators \<Rightarrow> market_context \<Rightarrow> real" where
  "scoring_delta ind mc =
     - (if adx_regime ind = RANGING then 15 else 0)
     + (if trend_direction ind = BULLISH then 20 else - 20)
     + (if rsi_signal ind = Oversold then 15 else if rsi_signal ind = Overbought then - 15 else 0)
     + (if fgt (stoch_rsi_k ind) (Num 85) then - 30
        else if stoch_rsi_signal ind = Oversold then 15 else 0)
     + (if macd_cross ind = Bullish_cross then 10 else - 10)
     - (if vix_high_volatility mc then 15 else 0)"

text \<open>The order of the pullback levels: not farther from the price.\<close>

definition dist_le :: "entry_option \<Rightarrow> entry_option \<Rightarrow> bool" where
  "dist_le a b = fle (distance_percent a) (distance_percent b)"

section \<open>Sample inputs\<close>

text \<open>A bar without any price movement.\<close>

definition flat_bar :: bar where
  "flat_bar =
     \<lparr>bar_open = Num 100, high = Num 100, low = Num 100, close = Num 100, volume = Num 1000\<rparr>"

text \<open>A snapshot in a trending market with neutral oscillators.\<close>

definition neutral_indicators :: indicators where
  "neutral_indicators =
     \<lparr>price_current = Num 100, rsi_value = Num 50, rsi_signal = Neutral_zone,
      stoch_rsi_k = Num 50, stoch_rsi_signal = Neutral_zone, adx_value = Num 30,
      adx_regime = TRENDING, atr_value = Num 2, macd_cross = Bearish_cross,
      volume_ratio = Num 1, pivots_support = Num 90, pivots_resistance = Num 110,
      trend_direction = BULLISH\<rparr>"

text \<open>The same snapshot with the three overbought SELL-trigger conditions met.\<close>

definition overbought_indicators :: indicators where
  "overbought_indicators =
     neutral_indicators\<lparr>rsi_value := Num 80, rsi_signal := Overbought, stoch_rsi_k := Num 95,
       stoch_rsi_signal := Overbought, volume_ratio := Num (3 / 10)\<rparr>"

text \<open>With an oversold RSI; with a volume of 0.6 times the average; with all four
  bullish readings.\<close>

definition oversold_indicators :: indicators where
  "oversold_indicators = neutral_indicators\<lparr>rsi_signal := Oversold\<rparr>"

definition thin_volume_indicators :: indicators where
  "thin_volume_indicators = neutral_indicators\<lparr>volume_ratio := Num (6 / 10)\<rparr>"

definition bullish_indicators :: indicators where
  "bullish_indicators =
     neutral_indicators\<lparr>rsi_signal := Oversold, stoch_rsi_signal := Oversold,
       macd_cross := Bullish_cross\<rparr>"

text \<open>A snapshot of an instrument that trades below one cent.\<close>

definition sub_cent_indicators :: indicators where
  "sub_cent_indicators =
     neutral_indicators\<lparr>price_current := Num (4 / 1000), atr_value := Num (2 / 1000),
       pivots_support := Num 0, pivots_resistance := Num (1 / 100)\<rparr>"

text \<open>A snapshot without volatility, as a series of flat bars gives.\<close>

definition zero_atr_indicators :: indicators where
  "zero_atr_indicators = neutral_indicators\<lparr>atr_value := Num 0\<rparr>"

text \<open>A snapshot with an infinite price.\<close>

definition infinite_price_indicators :: indicators where
  "infinite_price_indicators = neutral_indicators\<lparr>price_current := PInf\<rparr>"

definition calm_market :: market_context where
  "calm_market = \<lparr>vix_high_volatility = False\<rparr>"

definition sound_risk :: "string \<rightharpoonup> pyfloat" where
  "sound_risk = [''risk_reward_ratio'' \<mapsto> Num 2]"

definition ten_percent_drop :: massive_drop where
  "ten_percent_drop =
     \<lparr>drop_percent = Num (- 10), previous_close = Num 100, current_close = Num 90,
      volume_spike = False, drop_volume_ratio = Num 1,
      warning = Msg ''Scadere Masiva Detectata'' [Num 10],
      action = Msg ''WAIT 24-48h pentru stabilizare inainte de orice intrare'' []\<rparr>"

text \<open>Fundamentals with a debt/equity of 11.2, in percentage form and in ratio form.\<close>

definition leveraged_percent :: fundamentals where
  "leveraged_percent = \<lparr>free_cash_flow = None, debt_to_equity = Some (Num 1120)\<rparr>"

definition leveraged_ratio :: fundamentals where
  "leveraged_ratio = \<lparr>free_cash_flow = None, debt_to_equity = Some (Num (56 / 5))\<rparr>"

section \<open>Properties\<close>

lemmas float_defs =
  validate_stop_loss_def validate_take_profit_def validate_price_float_def default_min_price_def
  pymax_def pymin_def fgt_def fge_def fsub_def py_div_def cap_risk_reward_ratio_def Let_def
  assess_risk_def round_half_even_def

lemmas sample_defs =
  neutral_indicators_def overbought_indicators_def oversold_indicators_def
  thin_volume_indicators_def bullish_indicators_def sub_cent_indicators_def
  zero_atr_indicators_def infinite_price_indicators_def calm_market_def sound_risk_def ten_percent_drop_def flat_bar_def
  leveraged_percent_def leveraged_ratio_def

subsection \<open>Floats and rounding\<close>

lemma fadd_NaN_right [simp]: "fadd x NaN = NaN"
  by (cases x) auto

lemma fsub_NaN_right [simp]: "fsub x NaN = NaN"
  by (simp add: fsub_def)

lemma fdiv_NaN_right [simp]: "fdiv x NaN = NaN"
  by (cases x) auto

lemma nonneg_is_finite: "nonneg x \<Longrightarrow> is_finite x"
  by (cases x) auto

lemma nonneg_the_real: "nonneg x \<Longrightarrow> 0 \<le> the_real x"
  by (cases x) auto

lemma is_finite_finite_or_nan: "is_finite x \<Longrightarrow> finite_or_nan x"
  by (cases x) auto

lemma round_half_even_floor: "\<lfloor>x\<rfloor> \<le> round_half_even x"
  by (simp add: round_half_even_def Let_def)

lemma round_half_even_ge:
  assumes "of_int n \<le> x"
  shows "n \<le> round_half_even x"
proof -
  have "n \<le> \<lfloor>x\<rfloor>" using assms by (simp add: le_floor_iff)
  then show ?thesis using round_half_even_floor [of x] by linarith
qed

lemma round_half_even_le:
  assumes "x \<le> of_int n"
  shows "round_half_even x \<le> n"
proof -
  have f: "\<lfloor>x\<rfloor> \<le> n" using assms by (simp add: floor_le_iff)
  show ?thesis
  proof (cases "x = of_int \<lfloor>x\<rfloor>")
    case True
    then have "x - of_int \<lfloor>x\<rfloor> = 0" by simp
    then show ?thesis unfolding round_half_even_def Let_def using f by simp
  next
    case False
    then have "of_int \<lfloor>x\<rfloor> < x" using of_int_floor_le [of x] by linarith
    then have "of_int \<lfloor>x\<rfloor> < (of_int n :: real)" using assms by linarith
    then have "\<lfloor>x\<rfloor> < n" by simp
    then show ?thesis unfolding round_half_even_def Let_def by auto
  qed
qed

lemma round2_nonneg: "nonneg x \<Longrightarrow> nonneg (round2 x)"
  using round_half_even_ge [of 0] by (cases x) auto

lemma round2_percent_or_nan:
  assumes "percent_or_nan x"
  shows "percent_or_nan (round2 x)"
proof (cases x)
  case (Num a)
  with assms have a: "0 \<le> a" "a \<le> 100" by auto
  have "0 \<le> round_half_even (a * 100)"
    using round_half_even_ge [of 0 "a * 100"] a by simp
  moreover have "round_half_even (a * 100) \<le> 10000"
    using round_half_even_le [of "a * 100" 10000] a by simp
  ultimately show ?thesis using Num by simp
qed (use assms in auto)

lemma round2_floor:
  assumes "1 / 100 \<le> a"
  shows "\<exists>b. round2 (Num a) = Num b \<and> 1 / 100 \<le> b"
proof -
  have "1 \<le> round_half_even (a * 100)"
    using round_half_even_ge [of 1 "a * 100"] assms by simp
  then have "(1 :: real) \<le> of_int (round_half_even (a * 100))" by simp
  then have "(1 :: real) / 100 \<le> of_int (round_half_even (a * 100)) / 100" by simp
  then show ?thesis by (intro exI [of _ "of_int (round_half_even (a * 100)) / 100"]) simp
qed

subsection \<open>Means, extrema and rolling windows\<close>

lemma sum_list_le_length:
  "\<forall>r\<in>set rs. r \<le> c \<Longrightarrow> sum_list rs \<le> c * real (length rs)" for c :: real
  by (induction rs) (auto simp: algebra_simps)

lemma mean_nonneg: "\<forall>r\<in>set rs. 0 \<le> r \<Longrightarrow> 0 \<le> mean rs"
  by (simp add: mean_def sum_list_nonneg)

lemma mean_le: "rs \<noteq> [] \<Longrightarrow> \<forall>r\<in>set rs. r \<le> c \<Longrightarrow> mean rs \<le> c"
  using sum_list_le_length [of rs c]
  by (simp add: mean_def pos_divide_le_eq)

lemma list_min_le: "r \<in> set rs \<Longrightarrow> list_min rs \<le> r"
  by (induction rs rule: list_min.induct) auto

lemma list_max_ge: "r \<in> set rs \<Longrightarrow> r \<le> list_max rs"
  by (induction rs rule: list_max.induct) auto

lemma aggregate_mean_nonneg:
  assumes "list_all nonneg ys"
  shows "\<exists>a. aggregate mean ys = Num a \<and> 0 \<le> a"
proof -
  have "list_all is_finite ys"
    using assms by (auto simp: list_all_iff nonneg_is_finite)
  moreover have "0 \<le> mean (map the_real ys)"
    using assms by (intro mean_nonneg) (auto simp: list_all_iff nonneg_the_real)
  ultimately show ?thesis by (simp add: aggregate_def)
qed

lemma aggregate_mean_nonneg_or_nan:
  assumes "list_all nonneg_nan_or_inf ys"
  shows "nonneg_or_nan (aggregate mean ys)"
proof (cases "list_all is_finite ys")
  case True
  have "\<forall>y\<in>set ys. 0 \<le> the_real y"
  proof
    fix y assume "y \<in> set ys"
    with assms True have "nonneg_nan_or_inf y" "is_finite y" by (auto simp: list_all_iff)
    then show "0 \<le> the_real y" by (cases y) auto
  qed
  then have "0 \<le> mean (map the_real ys)" by (intro mean_nonneg) auto
  with True show ?thesis by (simp add: aggregate_def)
next
  case False
  then show ?thesis by (simp add: aggregate_def)
qed

lemma aggregate_mean_percent:
  assumes "ys \<noteq> []" and "list_all percent_or_nan ys"
  shows "percent_or_nan (aggregate mean ys)"
proof (cases "list_all is_finite ys")
  case True
  have b: "\<forall>y\<in>set ys. 0 \<le> the_real y \<and> the_real y \<le> 100"
  proof
    fix y assume "y \<in> set ys"
    with assms True have "percent_or_nan y" "is_finite y" by (auto simp: list_all_iff)
    then show "0 \<le> the_real y \<and> the_real y \<le> 100" by (cases y) auto
  qed
  have "0 \<le> mean (map the_real ys)" using b by (intro mean_nonneg) auto
  moreover have "mean (map the_real ys) \<le> 100" using b assms(1) by (intro mean_le) auto
  ultimately show ?thesis using True by (simp add: aggregate_def)
next
  case False
  then show ?thesis by (simp add: aggregate_def)
qed

lemma length_rolling [simp]: "length (rolling agg w xs) = length xs"
  by (simp add: rolling_def)

lemma nth_rolling:
  "i < length xs \<Longrightarrow>
   rolling agg w xs ! i = (if Suc i < w then NaN else aggregate agg (window w xs i))"
  by (simp add: rolling_def)

lemma set_window: "set (window w xs i) \<subseteq> set xs"
  unfolding window_def by (meson set_drop_subset set_take_subset subset_trans)

lemma window_nonempty: "0 < w \<Longrightarrow> i < length xs \<Longrightarrow> window w xs i \<noteq> []"
  by (auto simp: window_def)

lemma last_in_window:
  assumes "0 < w" and "i < length xs" and "\<not> Suc i < w"
  shows "xs ! i \<in> set (window w xs i)"
proof -
  have len: "length (window w xs i) = w" using assms by (simp add: window_def)
  have "window w xs i ! (w - 1) = xs ! i"
    using assms by (simp add: window_def)
  moreover have "w - 1 < length (window w xs i)" using len assms(1) by simp
  ultimately show ?thesis by (metis nth_mem)
qed

lemma list_all_rolling:
  assumes agg: "\<And>ys. ys \<noteq> [] \<Longrightarrow> list_all P ys \<Longrightarrow> Q (aggregate agg ys)"
    and nan: "Q NaN" and w: "0 < w" and xs: "list_all P xs"
  shows "list_all Q (rolling agg w xs)"
proof -
  have "Q (rolling agg w xs ! i)" if i: "i < length xs" for i
  proof (cases "Suc i < w")
    case True
    with i nan show ?thesis by (simp add: nth_rolling)
  next
    case False
    have "list_all P (window w xs i)"
      using xs set_window [of w xs i] by (auto simp: list_all_iff)
    then have "Q (aggregate agg (window w xs i))"
      using agg window_nonempty [OF w i] by blast
    with False i show ?thesis by (simp add: nth_rolling)
  qed
  then show ?thesis by (simp add: list_all_length)
qed

lemma last_rolling:
  assumes "0 < w" and "w \<le> length xs"
  shows "last (rolling agg w xs) = aggregate agg (drop (length xs - w) xs)"
proof -
  from assms have n: "xs \<noteq> []" by auto
  then have "rolling agg w xs \<noteq> []" by (simp add: rolling_def)
  then have "last (rolling agg w xs) = rolling agg w xs ! (length xs - 1)"
    by (simp add: last_conv_nth)
  also have "\<dots> = aggregate agg (window w xs (length xs - 1))"
    using assms n by (simp add: nth_rolling)
  also have "window w xs (length xs - 1) = drop (length xs - w) xs"
    using assms n by (simp add: window_def)
  finally show ?thesis .
qed

lemma list_all_last: "xs \<noteq> [] \<Longrightarrow> list_all P xs \<Longrightarrow> P (last xs)"
  by (simp add: list_all_iff)

lemma list_all_map2:
  assumes "list_all P xs" and "list_all Q ys" and "\<And>x y. P x \<Longrightarrow> Q y \<Longrightarrow> R (f x y)"
  shows "list_all R (map2 f xs ys)"
proof -
  have "R (f x y)" if "(x, y) \<in> set (zip xs ys)" for x y
  proof -
    from that have "x \<in> set xs" "y \<in> set ys"
      by (auto dest: set_zip_leftD set_zip_rightD)
    with assms show ?thesis by (auto simp: list_all_iff)
  qed
  then show ?thesis by (auto simp: list_all_iff)
qed

lemma list_all_map:
  assumes "list_all P xs" and "\<And>x. P x \<Longrightarrow> Q (f x)"
  shows "list_all Q (map f xs)"
  using assms by (auto simp: list_all_iff)

lemma map2_same: "map2 f (map g xs) (map h xs) = map (\<lambda>x. f (g x) (h x)) xs"
  by (induction xs) auto

lemma list_all_shift:
  assumes "list_all P xs" and "P NaN"
  shows "list_all P (shift xs)"
  using assms by (auto simp: shift_def list_all_iff dest: in_set_butlastD)

lemma length_shift [simp]: "length (shift xs) = length xs"
  by (simp add: shift_def)

lemma length_diff [simp]: "length (diff xs) = length xs"
  by (simp add: diff_def)

lemma length_where_or_zero [simp]:
  "length (where_or_zero cs xs) = min (length cs) (length xs)"
  by (simp add: where_or_zero_def)

lemma where_or_zero_map:
  "where_or_zero (map c xs) xs = map (\<lambda>x. if c x then x else Num 0) xs"
  unfolding where_or_zero_def by (induction xs) auto

lemma rolling_mean_percent:
  assumes "0 < w" and "list_all percent_or_nan xs"
  shows "list_all percent_or_nan (rolling mean w xs)"
  by (rule list_all_rolling [where P = percent_or_nan])
    (use assms aggregate_mean_percent in auto)

subsection \<open>The price floor\<close>

lemma float_overflow_numeral [code]:
  "float_overflow =
     179769313486231580793728971405303415079934132710037826936173778980444968292764750946649017977587207096330286416692887910946555547851940402630657488671505820681908902000708383676273854845817711531764475730270069855571366959622842914819860834936475292719074168444365510704342711559699508093042880177904174497792"
  by (simp add: float_overflow_def)

lemma float_overflow_pos: "0 < float_overflow"
  by (simp add: float_overflow_def)

lemma float_literal_examples:
  "py_float (PyStr '' 12.5'') = Inr (Num (25 / 2))"
  "py_float (PyStr ''-3'') = Inr (Num (- 3))"
  "py_float (PyStr ''inf'') = Inr PInf"
  "py_float (PyStr ''1e400'') = Inr PInf"
  "py_float (PyStr ''n/a'') = Inl ValueError"
  by code_simp+

lemma int_beyond_float_range: "py_float (PyInt (2 ^ 1024)) = Inl OverflowError"
  by (simp add: float_overflow_def)

text \<open>
  C7, as the claim states it, fails in two ways: a string that is not a float literal is
  not replaced by the floor, \<open>validate_price\<close> raises \<open>ValueError\<close> on it; and plus infinity
  is returned unchanged, so the result is not finite.
\<close>

theorem validate_price_counterexample:
  "validate_price (PyStr ''n/a'') default_min_price = Inl ValueError \<and>
   validate_price (PyFloat PInf) default_min_price = Inr PInf \<and>
   \<not> is_finite PInf"
  by code_simp

text \<open>
  C7 (amended): for a finite positive floor, \<open>validate_price\<close> returns the floor for \<open>None\<close>
  and NaN. For every other float, int or string it raises exactly when \<open>float(price)\<close>
  raises, which is for a string that is not a float literal (\<open>ValueError\<close>) and for an int
  beyond the float range (\<open>OverflowError\<close>), and otherwise returns the maximum of the floor
  and \<open>float(price)\<close>: the floor when \<open>float(price)\<close> is NaN, minus infinity or a number that
  is not above the floor (so for every value \<open>\<le> 0\<close>), and \<open>float(price)\<close> otherwise. A
  returned result is never below the floor and is positive, and it is finite unless
  \<open>float(price)\<close> is plus infinity, which is returned unchanged. On \<open>None\<close> and on a float the
  result is that of \<open>validate_price_float\<close>.
\<close>

theorem validate_price_floor:
  assumes "0 < m"
  shows
    "(pr = PyNone \<or> pr = PyFloat NaN \<longrightarrow> validate_price pr (Num m) = Inr (Num m)) \<and>
     (pr = PyNone \<longrightarrow> validate_price pr (Num m) = Inr (validate_price_float None (Num m))) \<and>
     (\<forall>p. pr = PyFloat p \<longrightarrow>
        validate_price pr (Num m) = Inr (validate_price_float (Some p) (Num m))) \<and>
     (\<forall>e. pr \<noteq> PyNone \<and> py_float pr = Inl e \<longrightarrow> validate_price pr (Num m) = Inl e) \<and>
     (\<forall>x. py_float pr = Inr (Num x) \<longrightarrow> validate_price pr (Num m) = Inr (Num (max m x))) \<and>
     (\<forall>x. py_float pr = Inr (Num x) \<and> x \<le> 0 \<longrightarrow> validate_price pr (Num m) = Inr (Num m)) \<and>
     (py_float pr = Inr NaN \<or> py_float pr = Inr NInf \<longrightarrow>
        validate_price pr (Num m) = Inr (Num m)) \<and>
     (py_float pr = Inr PInf \<longrightarrow> validate_price pr (Num m) = Inr PInf) \<and>
     ((\<exists>e. validate_price pr (Num m) = Inl e) \<longleftrightarrow>
        (\<exists>s. pr = PyStr s \<and> float_of_string s = None) \<or>
        (\<exists>i. pr = PyInt i \<and> float_overflow \<le> \<bar>real_of_int i\<bar>)) \<and>
     (\<forall>r. validate_price pr (Num m) = Inr r \<longrightarrow>
        fle (Num m) r \<and> flt (Num 0) r \<and> (is_finite r \<or> py_float pr = Inr PInf))"
proof (cases pr)
  case PyNone
  with assms show ?thesis by (simp add: validate_price_def validate_price_float_def)
next
  case (PyFloat p)
  with assms show ?thesis
    by (cases p) (auto simp: validate_price_def validate_price_float_def pymax_def fgt_def max_def)
next
  case (PyInt i)
  with assms show ?thesis
    by (auto simp: validate_price_def pymax_def fgt_def max_def)
next
  case (PyStr s)
  show ?thesis
  proof (cases "float_of_string s")
    case None
    with PyStr assms show ?thesis by (simp add: validate_price_def)
  next
    case (Some p)
    with PyStr assms show ?thesis
      by (cases p) (auto simp: validate_price_def pymax_def fgt_def max_def)
  qed
qed

theorem validate_price_floor_witness:
  "(0 :: real) < 1 / 100 \<and>
   validate_price PyNone default_min_price = Inr (Num (1 / 100)) \<and>
   validate_price (PyFloat NaN) default_min_price = Inr (Num (1 / 100)) \<and>
   validate_price (PyFloat (Num (- 5))) default_min_price = Inr (Num (1 / 100)) \<and>
   validate_price (PyFloat (Num 7)) default_min_price = Inr (Num 7) \<and>
   validate_price (PyInt 0) default_min_price = Inr (Num (1 / 100)) \<and>
   validate_price (PyStr '' 12.5'') default_min_price = Inr (Num (25 / 2)) \<and>
   validate_price (PyStr ''-3'') default_min_price = Inr (Num (1 / 100)) \<and>
   validate_price (PyStr ''inf'') default_min_price = Inr PInf \<and>
   validate_price (PyStr ''1e400'') default_min_price = Inr PInf \<and>
   validate_price (PyStr ''n/a'') default_min_price = Inl ValueError \<and>
   validate_price (PyInt (2 ^ 1024)) default_min_price = Inl OverflowError"
proof -
  have m: "(0 :: real) < 1 / 100" by simp
  note floor = validate_price_floor [OF m]
  note missing = floor [THEN conjunct1, rule_format]
  note raised = floor [THEN conjunct2, THEN conjunct2, THEN conjunct2, THEN conjunct1,
    rule_format]
  note number = floor [THEN conjunct2, THEN conjunct2, THEN conjunct2, THEN conjunct2,
    THEN conjunct1, rule_format]
  note infinite = floor [THEN conjunct2, THEN conjunct2, THEN conjunct2, THEN conjunct2,
    THEN conjunct2, THEN conjunct2, THEN conjunct2, THEN conjunct1, rule_format]
  note ex = float_literal_examples
  have "validate_price PyNone (Num (1 / 100)) = Inr (Num (1 / 100))"
    by (rule missing) simp
  moreover have "validate_price (PyFloat NaN) (Num (1 / 100)) = Inr (Num (1 / 100))"
    by (rule missing) simp
  moreover have "validate_price (PyFloat (Num (- 5))) (Num (1 / 100)) = Inr (Num (1 / 100))"
    using number [of "PyFloat (Num (- 5))" "- 5"] by simp
  moreover have "validate_price (PyFloat (Num 7)) (Num (1 / 100)) = Inr (Num 7)"
    using number [of "PyFloat (Num 7)" 7] by simp
  moreover have "validate_price (PyInt 0) (Num (1 / 100)) = Inr (Num (1 / 100))"
    using number [of "PyInt 0" 0] float_overflow_pos by simp
  moreover have "validate_price (PyStr '' 12.5'') (Num (1 / 100)) = Inr (Num (25 / 2))"
    using number [OF ex(1)] by simp
  moreover have "validate_price (PyStr ''-3'') (Num (1 / 100)) = Inr (Num (1 / 100))"
    using number [OF ex(2)] by simp
  moreover have "validate_price (PyStr ''inf'') (Num (1 / 100)) = Inr PInf"
    by (rule infinite [OF ex(3)])
  moreover have "validate_price (PyStr ''1e400'') (Num (1 / 100)) = Inr PInf"
    by (rule infinite [OF ex(4)])
  moreover have "validate_price (PyStr ''n/a'') (Num (1 / 100)) = Inl ValueError"
    by (rule raised) (simp add: ex(5) del: py_float.simps)
  moreover have "validate_price (PyInt (2 ^ 1024)) (Num (1 / 100)) = Inl OverflowError"
    by (rule raised, rule conjI, simp, rule int_beyond_float_range)
  ultimately show ?thesis using m by (simp add: default_min_price_def)
qed

subsection \<open>Massive drop detection\<close>

text \<open>
  C8: \<open>detect_massive_drop\<close> returns \<open>None\<close> for every series of fewer than two bars. For
  every series whose last two closes are 100 and 90 and threshold 8 it returns the alert
  with drop percentage -10, with the volume-spike flag "volume ratio > 1.5", where the ratio
  is the last volume over the mean of the last 20 volumes (and 1 when there are fewer than
  20 bars), and with the wait-24-48h action.
\<close>

theorem massive_drop_detection:
  "(length df < 2 \<longrightarrow> detect_massive_drop df threshold = None) \<and>
   (2 \<le> length df \<and> close (df ! (length df - 2)) = Num 100 \<and> close (last df) = Num 90 \<longrightarrow>
      detect_massive_drop df (Num 8) =
        Some \<lparr>drop_percent = Num (- 10), previous_close = Num 100, current_close = Num 90,
          volume_spike =
            fgt (if 20 \<le> length df
                 then fdiv (volume (last df))
                        (aggregate mean (map volume (drop (length df - 20) df)))
                 else Num 1) (Num (3 / 2)),
          drop_volume_ratio =
            round2 (if 20 \<le> length df
                    then fdiv (volume (last df))
                           (aggregate mean (map volume (drop (length df - 20) df)))
                    else Num 1),
          warning = Msg ''Scadere Masiva Detectata'' [Num 10],
          action = Msg ''WAIT 24-48h pentru stabilizare inainte de orice intrare'' []\<rparr>)"
proof -
  have r: "last (rolling mean 20 (map volume df)) =
      aggregate mean (map volume (drop (length df - 20) df))" if "20 \<le> length df"
    using that last_rolling [of 20 "map volume df" mean] by (simp add: drop_map)
  show ?thesis
    by (auto simp: detect_massive_drop_def Let_def fsub_def r round_half_even_def)
qed

theorem massive_drop_detection_witness:
  "detect_massive_drop [] (Num 8) = None \<and>
   detect_massive_drop [flat_bar] (Num 8) = None \<and>
   detect_massive_drop [flat_bar, flat_bar\<lparr>close := Num 90\<rparr>] (Num 8) = Some ten_percent_drop"
  using massive_drop_detection [of "[]" "Num 8"] massive_drop_detection [of "[flat_bar]" "Num 8"]
    massive_drop_detection [of "[flat_bar, flat_bar\<lparr>close := Num 90\<rparr>]"]
  by (simp add: sample_defs fgt_def round_half_even_def)

subsection \<open>Risk calculator\<close>

lemma zero_atr_stop_is_entry:
  assumes "price_current ind = Num c" and "1 / 100 \<le> c" and "atr_value ind = Num 0"
  shows "validated_stop_loss ind = Num c"
  using assms
  by (cases "pivots_support ind")
    (auto simp: validated_stop_loss_def validate_stop_loss_def validate_price_float_def
      default_min_price_def pymax_def fgt_def fge_def fsub_def Let_def)

lemma validate_price_float_floor_class:
  "validate_price_float (Some x) default_min_price \<noteq> NaN"
  "validate_price_float (Some x) default_min_price \<noteq> NInf"
  by (cases x; simp add: validate_price_float_def default_min_price_def pymax_def fgt_def)+

lemma validated_stop_loss_class:
  "validated_stop_loss ind \<noteq> NaN" "validated_stop_loss ind \<noteq> NInf"
  by (simp_all add: validated_stop_loss_def validate_stop_loss_def Let_def
      validate_price_float_floor_class)

lemma stop_at_entry_raises:
  assumes "is_finite (price_current ind)" and "validated_stop_loss ind = price_current ind"
  shows "calculate_risk_reward ind = Inl ZeroDivisionError"
proof -
  from assms(1) obtain c where c: "price_current ind = Num c"
    by (cases "price_current ind") auto
  show ?thesis
  proof (cases "c = 0")
    case True
    with c show ?thesis
      by (simp add: calculate_risk_reward_def py_div_def Let_def)
  next
    case False
    with c assms(2) show ?thesis
      by (simp add: calculate_risk_reward_def py_div_def Let_def fsub_def fgt_def)
  qed
qed

lemma infinite_stop_returns:
  assumes "price_current ind = PInf" and "validated_stop_loss ind = PInf"
  shows "\<exists>profile. calculate_risk_reward ind = Inr profile"
  using assms by (simp add: calculate_risk_reward_def py_div_def Let_def fsub_def fgt_def)

text \<open>
  C10, as the claim states it, fails for an infinite price: the validated stop loss then
  equals the price, but the stop-loss percentage is NaN rather than 0, the division
  \<open>1.0 / sl_percent\<close> does not raise, and a profile is returned.
\<close>

theorem infinite_price_profile_returned:
  "validated_stop_loss infinite_price_indicators = price_current infinite_price_indicators \<and>
   calculate_risk_reward infinite_price_indicators =
     Inr \<lparr>entry_price = PInf, stop_loss = PInf, take_profit = PInf,
          stop_loss_percent = NaN, risk_reward_ratio = Num 0, actual_rr_ratio = Num 0,
          rr_capped = False, position_size_suggestion = NaN,
          trailing_stop = PInf, atr_value_used = Num 2, favorable = False,
          risk_assessment = HIGH_unfavourable_rr, support_used = Num 90,
          resistance_used = Num 110\<rparr>"
  by code_simp

text \<open>
  C10 (amended): the divisor of the position sizing is not guarded. For every snapshot whose
  validated stop loss equals the price, \<open>calculate_risk_reward\<close> raises \<open>ZeroDivisionError\<close>
  instead of returning a profile, unless the price is plus infinity, in which case it
  returns a profile; and the validated stop loss equals the price for every snapshot with
  ATR 0 and a price of at least 0.01.
\<close>

theorem position_sizing_division_by_zero:
  "(validated_stop_loss ind = price_current ind \<longrightarrow>
      (price_current ind \<noteq> PInf \<longrightarrow> calculate_risk_reward ind = Inl ZeroDivisionError) \<and>
      (price_current ind = PInf \<longrightarrow> (\<exists>profile. calculate_risk_reward ind = Inr profile))) \<and>
   (\<forall>c. price_current ind = Num c \<and> 1 / 100 \<le> c \<and> atr_value ind = Num 0 \<longrightarrow>
      validated_stop_loss ind = price_current ind \<and>
      calculate_risk_reward ind = Inl ZeroDivisionError)"
proof -
  have "calculate_risk_reward ind = Inl ZeroDivisionError"
    if "validated_stop_loss ind = price_current ind" and "price_current ind \<noteq> PInf"
  proof -
    from that validated_stop_loss_class [of ind] have "is_finite (price_current ind)"
      by (cases "price_current ind") auto
    then show ?thesis using that(1) by (rule stop_at_entry_raises)
  qed
  moreover have "\<exists>profile. calculate_risk_reward ind = Inr profile"
    if "validated_stop_loss ind = price_current ind" and "price_current ind = PInf"
    using that infinite_stop_returns [of ind] by simp
  moreover have "validated_stop_loss ind = price_current ind \<and>
      calculate_risk_reward ind = Inl ZeroDivisionError"
    if "price_current ind = Num c" and "1 / 100 \<le> c" and "atr_value ind = Num 0" for c
    using that stop_at_entry_raises [of ind] zero_atr_stop_is_entry [of ind c] by simp
  ultimately show ?thesis by blast
qed

theorem position_sizing_division_by_zero_witness:
  "price_current zero_atr_indicators = Num 100 \<and> atr_value zero_atr_indicators = Num 0 \<and>
   price_current zero_atr_indicators \<noteq> PInf \<and>
   validated_stop_loss zero_atr_indicators = price_current zero_atr_indicators \<and>
   calculate_risk_reward zero_atr_indicators = Inl ZeroDivisionError"
  using position_sizing_division_by_zero [of zero_atr_indicators]
  by (simp add: sample_defs)

text \<open>
  C2 fails on the code for a price below one cent: the floor of 0.01 that
  \<open>validate_stop_loss\<close> applies last lifts the stop loss above the entry, the stop-loss
  percentage is negative rather than zero, and a profile is returned.
\<close>

theorem sub_cent_stop_loss_above_entry:
  "price_current sub_cent_indicators = Num (4 / 1000) \<and>
   validated_stop_loss sub_cent_indicators = Num (1 / 100) \<and>
   calculate_risk_reward sub_cent_indicators =
     Inr \<lparr>entry_price = Num 0, stop_loss = Num (1 / 100), take_profit = Num (1 / 100),
          stop_loss_percent = Num (- 150), risk_reward_ratio = Num 2, actual_rr_ratio = Num 2,
          rr_capped = False, position_size_suggestion = Num (- (67 / 100)),
          trailing_stop = Num (1 / 100), atr_value_used = Num 0, favorable = True,
          risk_assessment = MODERATE_acceptable, support_used = Num 0,
          resistance_used = Num (1 / 100)\<rparr>"
proof -
  have sl: "validated_stop_loss sub_cent_indicators = Num (1 / 100)"
    by (simp add: sample_defs validated_stop_loss_def float_defs)
  show ?thesis
    by (simp add: calculate_risk_reward_def sl) (simp add: sample_defs float_defs)
qed

text \<open>Away from the floor the two validators do what their documentation says: for a
  price above 0.01 and a positive ATR the stop loss is below and the take profit above
  the price.\<close>

lemma validate_price_float_default:
  "validate_price_float (Some (Num v)) default_min_price = Num (max (1 / 100) v)"
  "validate_price_float (Some PInf) default_min_price = PInf"
  "validate_price_float (Some NInf) default_min_price = Num (1 / 100)"
  "validate_price_float (Some NaN) default_min_price = Num (1 / 100)"
  by (simp_all add: validate_price_float_def default_min_price_def pymax_def fgt_def max_def)

lemma validate_stop_loss_below:
  assumes "1 / 100 < c" and "0 < a"
  shows "flt (validate_stop_loss sl (Num c) (Num a)) (Num c)"
  using assms
  by (cases sl)
    (auto simp: validate_stop_loss_def Let_def validate_price_float_default fge_def fsub_def max_def)

lemma validate_take_profit_above:
  assumes "0 < c" and "0 < a"
  shows "flt (Num c) (validate_take_profit tp (Num c) (Num a))"
  using assms
  by (cases tp)
    (auto simp: validate_take_profit_def Let_def validate_price_float_default max_def)

subsection \<open>Indicator ranges\<close>

lemma fabs_fsub_class: "is_finite x \<Longrightarrow> finite_or_nan y \<Longrightarrow> nonneg_or_nan (fabs (fsub x y))"
  by (cases x; cases y) (auto simp: fsub_def)

lemma nanmax_class: "nonneg x \<Longrightarrow> nonneg_or_nan y \<Longrightarrow> nonneg (nanmax x y)"
  by (cases x; cases y) auto

lemma true_range_nonneg:
  assumes "list_all well_formed_bar df"
  shows "list_all nonneg (true_range df)"
proof -
  have h: "list_all is_finite (map high df)" and l: "list_all is_finite (map low df)"
    and c: "list_all finite_or_nan (map close df)"
    using assms by (auto simp: list_all_iff well_formed_bar_def is_finite_finite_or_nan)
  have pc: "list_all finite_or_nan (shift (map close df))"
    using c by (rule list_all_shift) simp
  have "nonneg (fsub (high b) (low b))" if "well_formed_bar b" for b
    using that by (cases "high b"; cases "low b") (auto simp: well_formed_bar_def fsub_def)
  then have tr1: "list_all nonneg (map2 fsub (map high df) (map low df))"
    using assms by (auto simp: map2_same list_all_iff)
  have tr2: "list_all nonneg_or_nan (map fabs (map2 fsub (map high df) (shift (map close df))))"
  proof -
    have "list_all (\<lambda>x. nonneg_or_nan (fabs x)) (map2 fsub (map high df) (shift (map close df)))"
      using h pc by (rule list_all_map2) (rule fabs_fsub_class)
    then show ?thesis by (simp add: list_all_iff)
  qed
  have tr3: "list_all nonneg_or_nan (map fabs (map2 fsub (map low df) (shift (map close df))))"
  proof -
    have "list_all (\<lambda>x. nonneg_or_nan (fabs x)) (map2 fsub (map low df) (shift (map close df)))"
      using l pc by (rule list_all_map2) (rule fabs_fsub_class)
    then show ?thesis by (simp add: list_all_iff)
  qed
  have "list_all nonneg (map2 nanmax (map2 fsub (map high df) (map low df))
          (map fabs (map2 fsub (map high df) (shift (map close df)))))"
    using tr1 tr2 by (rule list_all_map2) (rule nanmax_class)
  then have "list_all nonneg (map2 nanmax (map2 nanmax (map2 fsub (map high df) (map low df))
          (map fabs (map2 fsub (map high df) (shift (map close df)))))
          (map fabs (map2 fsub (map low df) (shift (map close df)))))"
    using tr3 by (rule list_all_map2) (rule nanmax_class)
  then show ?thesis by (simp add: true_range_def Let_def)
qed

lemma length_true_range [simp]: "length (true_range df) = length df"
  by (simp add: true_range_def Let_def)

lemma nonneg_nan_or_inf_I: "nonneg x \<Longrightarrow> nonneg_nan_or_inf x"
  by (cases x) auto

lemma nonneg_or_nan_I: "nonneg x \<Longrightarrow> nonneg_or_nan x"
  by (cases x) auto

lemma atr_series_class:
  assumes "list_all well_formed_bar df" and "0 < period"
  shows "list_all nonneg_or_nan (rolling mean period (true_range df))"
proof (rule list_all_rolling [where P = nonneg])
  show "list_all nonneg (true_range df)" using assms(1) by (rule true_range_nonneg)
  show "nonneg_or_nan (aggregate mean ys)" if "list_all nonneg ys" for ys
    using aggregate_mean_nonneg [OF that] by auto
qed (use assms in auto)

lemma last_atr_nonneg:
  assumes "list_all well_formed_bar df" and "0 < period" and "period \<le> length df"
  shows "\<exists>a. last (calculate_atr period df) = Num a \<and> 0 \<le> a"
proof -
  have "list_all nonneg (drop (length (true_range df) - period) (true_range df))"
    using true_range_nonneg [OF assms(1)] by (auto simp: list_all_iff dest: in_set_dropD)
  then show ?thesis
    using assms last_rolling [of period "true_range df" mean]
    by (simp add: calculate_atr_def aggregate_mean_nonneg)
qed

lemma rs_class: "nonneg_or_nan g \<Longrightarrow> nonneg_or_nan l \<Longrightarrow> nonneg_nan_or_inf (fdiv g l)"
  by (cases g; cases l) auto

lemma rsi_of_rs_class:
  "nonneg_nan_or_inf r \<Longrightarrow> percent_or_nan (fsub (Num 100) (fdiv (Num 100) (fadd (Num 1) r)))"
proof (cases r)
  case (Num q)
  assume "nonneg_nan_or_inf r"
  with Num have q: "0 \<le> q" by simp
  then have "100 / (1 + q) \<le> 100" by (simp add: pos_divide_le_eq)
  moreover have "0 \<le> 100 / (1 + q)" using q by simp
  ultimately show ?thesis using Num q by (simp add: fsub_def)
qed (auto simp: fsub_def)

lemma rsi_class:
  assumes "list_all well_formed_bar df" and "0 < period"
  shows "list_all percent_or_nan (calculate_rsi period df)"
proof -
  let ?delta = "diff (map close df)"
  have c: "list_all finite_or_nan (map close df)"
    using assms by (auto simp: list_all_iff well_formed_bar_def is_finite_finite_or_nan)
  have d: "list_all finite_or_nan ?delta"
    unfolding diff_def
  proof (rule list_all_map2 [OF c list_all_shift [OF c]])
    show "finite_or_nan (fsub x y)" if "finite_or_nan x" "finite_or_nan y" for x y
      using that by (cases x; cases y) (auto simp: fsub_def)
  qed simp
  have up: "list_all nonneg (where_or_zero (map (\<lambda>d. fgt d (Num 0)) ?delta) ?delta)"
    unfolding where_or_zero_map
  proof (rule list_all_map [OF d])
    show "nonneg (if fgt x (Num 0) then x else Num 0)" if "finite_or_nan x" for x
      using that by (cases x) (auto simp: fgt_def)
  qed
  have down: "list_all nonneg (map fneg (where_or_zero (map (\<lambda>d. flt d (Num 0)) ?delta) ?delta))"
    unfolding where_or_zero_map map_map
  proof (rule list_all_map [OF d])
    show "nonneg ((fneg \<circ> (\<lambda>x. if flt x (Num 0) then x else Num 0)) x)" if "finite_or_nan x" for x
      using that by (cases x) auto
  qed
  have mean_class: "nonneg_or_nan (aggregate mean ys)" if "list_all nonneg ys" for ys
    using aggregate_mean_nonneg [OF that] by auto
  have gain: "list_all nonneg_or_nan
      (rolling mean period (where_or_zero (map (\<lambda>d. fgt d (Num 0)) ?delta) ?delta))"
    by (rule list_all_rolling [where P = nonneg]) (use up assms mean_class in auto)
  have loss: "list_all nonneg_or_nan
      (rolling mean period (map fneg (where_or_zero (map (\<lambda>d. flt d (Num 0)) ?delta) ?delta)))"
    by (rule list_all_rolling [where P = nonneg]) (use down assms mean_class in auto)
  have rs: "list_all nonneg_nan_or_inf (map2 fdiv
      (rolling mean period (where_or_zero (map (\<lambda>d. fgt d (Num 0)) ?delta) ?delta))
      (rolling mean period (map fneg (where_or_zero (map (\<lambda>d. flt d (Num 0)) ?delta) ?delta))))"
    using gain loss by (rule list_all_map2) (rule rs_class)
  show ?thesis
    unfolding calculate_rsi_def Let_def
    using rs by (rule list_all_map) (rule rsi_of_rs_class)
qed

lemma length_calculate_rsi [simp]: "length (calculate_rsi period df) = length df"
  by (simp add: calculate_rsi_def Let_def)

lemma stoch_point:
  assumes "lo \<le> r" and "r \<le> hi"
  shows "percent_or_nan (fmul (fdiv (fsub (Num r) (Num lo)) (fsub (Num hi) (Num lo))) (Num 100))"
proof (cases "hi = lo")
  case True
  with assms have "r = lo" by simp
  with True show ?thesis by (simp add: fsub_def)
next
  case False
  with assms have pos: "0 < hi - lo" by simp
  define q where "q = (r - lo) / (hi - lo)"
  have "q \<le> 1" using assms pos by (simp add: q_def pos_divide_le_eq)
  moreover have "0 \<le> q" using assms pos by (simp add: q_def)
  moreover have "fmul (fdiv (fsub (Num r) (Num lo)) (fsub (Num hi) (Num lo))) (Num 100) =
      Num (q * 100)"
    using False by (simp add: fsub_def q_def)
  ultimately show ?thesis by simp
qed

lemma stoch_rsi_raw_class:
  assumes "0 < period"
  shows "list_all percent_or_nan (stoch_rsi_raw period xs)"
proof -
  let ?lo = "rolling list_min period xs" and ?hi = "rolling list_max period xs"
  have "percent_or_nan (stoch_rsi_raw period xs ! i)" if i: "i < length xs" for i
  proof -
    have eq: "stoch_rsi_raw period xs ! i =
        fmul (fdiv (fsub (xs ! i) (?lo ! i)) (fsub (?hi ! i) (?lo ! i))) (Num 100)"
      using i by (simp add: stoch_rsi_raw_def Let_def)
    show ?thesis
    proof (cases "Suc i < period \<or> \<not> list_all is_finite (window period xs i)")
      case True
      then have "?lo ! i = NaN"
        using i by (auto simp: nth_rolling aggregate_def)
      then show ?thesis by (simp add: eq)
    next
      case False
      let ?W = "window period xs i"
      from False have fin: "list_all is_finite ?W" and ge: "\<not> Suc i < period" by auto
      have mem: "xs ! i \<in> set ?W" using assms i ge by (rule last_in_window)
      with fin have "is_finite (xs ! i)" by (auto simp: list_all_iff)
      then obtain r where r: "xs ! i = Num r" by (cases "xs ! i") auto
      have rin: "r \<in> set (map the_real ?W)"
        using mem r by (metis image_eqI set_map the_real.simps(1))
      have lo: "?lo ! i = Num (list_min (map the_real ?W))"
        and hi: "?hi ! i = Num (list_max (map the_real ?W))"
        using i fin ge by (auto simp: nth_rolling aggregate_def)
      show ?thesis
        unfolding eq r lo hi
        using list_min_le [OF rin] list_max_ge [OF rin] by (rule stoch_point)
    qed
  qed
  moreover have "length (stoch_rsi_raw period xs) = length xs"
    by (simp add: stoch_rsi_raw_def Let_def)
  ultimately show ?thesis by (simp add: list_all_length)
qed

lemma stoch_rsi_class:
  assumes "0 < period" and "0 < smooth_k" and "0 < smooth_d"
  shows "list_all percent_or_nan (fst (calculate_stoch_rsi period smooth_k smooth_d df))"
    and "list_all percent_or_nan (snd (calculate_stoch_rsi period smooth_k smooth_d df))"
proof -
  have k: "list_all percent_or_nan
      (rolling mean smooth_k (stoch_rsi_raw period (calculate_rsi period df)))"
    using assms(2) stoch_rsi_raw_class [OF assms(1)] by (rule rolling_mean_percent)
  then show "list_all percent_or_nan (fst (calculate_stoch_rsi period smooth_k smooth_d df))"
    by (simp add: calculate_stoch_rsi_def Let_def)
  show "list_all percent_or_nan (snd (calculate_stoch_rsi period smooth_k smooth_d df))"
    using rolling_mean_percent [OF assms(3) k] by (simp add: calculate_stoch_rsi_def Let_def)
qed

lemma where_positive_class:
  assumes "length cs = length xs" and "\<And>i. i < length xs \<Longrightarrow> cs ! i \<Longrightarrow> fgt (xs ! i) (Num 0)"
  shows "list_all nonneg_nan_or_inf (where_or_zero cs xs)"
proof -
  have "nonneg_nan_or_inf (where_or_zero cs xs ! i)" if i: "i < length xs" for i
  proof (cases "cs ! i")
    case True
    then have "fgt (xs ! i) (Num 0)" using assms(2) i by blast
    then have "nonneg_nan_or_inf (xs ! i)" by (cases "xs ! i") (auto simp: fgt_def)
    with True i assms(1) show ?thesis by (simp add: where_or_zero_def)
  next
    case False
    with i assms(1) show ?thesis by (simp add: where_or_zero_def)
  qed
  then show ?thesis using assms(1) by (simp add: list_all_length)
qed

lemma di_point: "nonneg_or_nan m \<Longrightarrow> nonneg_or_nan a \<Longrightarrow> nonneg_nan_or_inf (fmul (Num 100) (fdiv m a))"
  by (cases m; cases a) auto

lemma directional_index_class:
  assumes "0 < period" and "list_all nonneg_nan_or_inf dm" and "list_all nonneg_or_nan atr"
  shows "list_all nonneg_nan_or_inf (directional_index period dm atr)"
proof -
  have m: "list_all nonneg_or_nan (rolling mean period dm)"
    by (rule list_all_rolling [where P = nonneg_nan_or_inf])
      (use assms aggregate_mean_nonneg_or_nan in auto)
  have "list_all (\<lambda>q. nonneg_nan_or_inf (fmul (Num 100) q)) (map2 fdiv (rolling mean period dm) atr)"
    using m assms(3) by (rule list_all_map2) (rule di_point)
  then show ?thesis by (simp add: directional_index_def list_all_iff)
qed

lemma dx_of_class:
  assumes "nonneg_nan_or_inf p" and "nonneg_nan_or_inf n"
  shows "percent_or_nan (dx_of p n)"
proof (cases p)
  case (Num a)
  note p = this
  show ?thesis
  proof (cases n)
    case (Num b)
    with p assms have ab: "0 \<le> a" "0 \<le> b" by auto
    show ?thesis
    proof (cases "a + b = 0")
      case True
      with ab have "a = 0" "b = 0" by auto
      with p Num show ?thesis by (simp add: dx_of_def fsub_def)
    next
      case False
      with ab have pos: "0 < a + b" by simp
      have "\<bar>a - b\<bar> \<le> a + b" using ab by simp
      then have "100 * \<bar>a - b\<bar> / (a + b) \<le> 100" using pos by (simp add: pos_divide_le_eq)
      moreover have "0 \<le> 100 * \<bar>a - b\<bar> / (a + b)" using pos by simp
      ultimately show ?thesis using p Num False by (simp add: dx_of_def fsub_def)
    qed
  qed (use p assms in \<open>auto simp: dx_of_def fsub_def\<close>)
qed (use assms in \<open>cases n; auto simp: dx_of_def fsub_def\<close>)+

lemma adx_class:
  assumes "list_all well_formed_bar df" and "0 < period"
  shows "list_all percent_or_nan (fst (calculate_adx period df))"
proof -
  let ?h = "map high df" and ?l = "map low df"
  let ?up = "map2 fsub ?h (shift ?h)" and ?down = "map2 fsub (shift ?l) ?l"
  let ?atr = "rolling mean period (true_range df)"
  have atr: "list_all nonneg_or_nan ?atr" using assms by (rule atr_series_class)
  have pos: "list_all nonneg_nan_or_inf
      (where_or_zero (map2 (\<lambda>u d. fgt u d \<and> fgt u (Num 0)) ?up ?down) ?up)"
    by (rule where_positive_class) auto
  have neg: "list_all nonneg_nan_or_inf
      (where_or_zero (map2 (\<lambda>d u. fgt d u \<and> fgt d (Num 0)) ?down ?up) ?down)"
    by (rule where_positive_class) auto
  note pdi = directional_index_class [OF assms(2) pos atr]
  note ndi = directional_index_class [OF assms(2) neg atr]
  have dx: "list_all percent_or_nan (map2 dx_of
      (directional_index period (where_or_zero (map2 (\<lambda>u d. fgt u d \<and> fgt u (Num 0)) ?up ?down) ?up) ?atr)
      (directional_index period (where_or_zero (map2 (\<lambda>d u. fgt d u \<and> fgt d (Num 0)) ?down ?up) ?down) ?atr))"
    using pdi ndi by (rule list_all_map2) (rule dx_of_class)
  show ?thesis
    unfolding calculate_adx_def Let_def fst_conv
    using assms(2) dx by (rule rolling_mean_percent)
qed

lemma donchian_lower_floor:
  assumes "list_all well_formed_bar df" and "0 < period" and "period \<le> length df"
  shows "\<exists>l. lower (calculate_donchian_channel period df) = Num l \<and> 1 / 100 \<le> l"
proof -
  let ?lows = "rolling list_min period (map low df)"
  have ne: "?lows \<noteq> []" using assms by (auto simp: rolling_def)
  have "\<exists>a. validate_price_float (Some x) default_min_price = Num a \<and> 1 / 100 \<le> a"
    if "finite_or_nan x" for x
  proof (cases x)
    case (Num v)
    then have "validate_price_float (Some x) default_min_price = Num (max (1 / 100) v)"
      by (simp add: default_min_price_def validate_price_float_def pymax_def fgt_def max_def)
    then show ?thesis by (intro exI [of _ "max (1 / 100) v"]) simp
  next
    case NaN
    then have "validate_price_float (Some x) default_min_price = Num (1 / 100)"
      by (simp add: default_min_price_def validate_price_float_def)
    then show ?thesis by (intro exI [of _ "1 / 100"]) simp
  qed (use that in auto)
  moreover have "finite_or_nan (last ?lows)"
    using assms last_rolling [of period "map low df" list_min]
    by (auto simp: aggregate_def)
  ultimately obtain a where a: "validate_price_float (Some (last ?lows)) default_min_price = Num a"
    and a_ge: "1 / 100 \<le> a" by blast
  have "lower (calculate_donchian_channel period df) = round2 (Num a)"
    using ne a by (simp add: calculate_donchian_channel_def Let_def last_map)
  then show ?thesis using round2_floor [OF a_ge] by simp
qed

lemma length_stoch_rsi_raw [simp]: "length (stoch_rsi_raw period xs) = length xs"
  by (simp add: stoch_rsi_raw_def Let_def)

lemma length_calculate_stoch_rsi [simp]:
  "length (fst (calculate_stoch_rsi period smooth_k smooth_d df)) = length df"
  "length (snd (calculate_stoch_rsi period smooth_k smooth_d df)) = length df"
  by (simp_all add: calculate_stoch_rsi_def Let_def)

lemma length_directional_index [simp]:
  "length (directional_index period dm atr) = min (length dm) (length atr)"
  by (simp add: directional_index_def)

lemma length_calculate_adx [simp]: "length (fst (calculate_adx period df)) = length df"
  by (simp add: calculate_adx_def Let_def)

lemma last_percent_or_nan:
  assumes "length xs = length df" and "df \<noteq> []" and "list_all percent_or_nan xs"
  shows "percent_or_nan (round2 (last xs))"
proof -
  from assms(1,2) have "xs \<noteq> []" by auto
  then have "percent_or_nan (last xs)" using assms(3) by (rule list_all_last)
  then show ?thesis by (rule round2_percent_or_nan)
qed

text \<open>
  C3 fails on the code for a series of twenty bars without price movement: the true range
  is 0 throughout, so the ATR is 0 and not positive, and the averages of gains and losses
  are both 0, so RSI, Stochastic RSI and ADX are NaN and not in [0,100]. The indicator test
  of the repository (\<open>backend_test.py\<close>) asserts an RSI in [0,100], an ADX \<open>\<ge> 0\<close> and an
  ATR \<open>> 0\<close>.
\<close>

theorem flat_series_out_of_range:
  "calculate_all_indicators (replicate 20 flat_bar) =
     Inr \<lparr>snapshot_price = Num 100, snapshot_rsi = NaN, snapshot_stoch_k = NaN,
          snapshot_stoch_d = NaN, snapshot_adx = NaN, snapshot_regime = NEUTRAL_regime,
          snapshot_atr = Num 0, snapshot_atr_percent = Num 0,
          snapshot_donchian = \<lparr>upper = Num 100, lower = Num 100, middle = Num 100\<rparr>\<rparr>"
  by code_simp

text \<open>
  What the code does ensure: for every series of at least 20 well-formed bars (finite
  prices, low not above high) \<open>calculate_all_indicators\<close> raises when the last close is 0 and
  otherwise returns a snapshot in which RSI, Stochastic RSI K and D and ADX are each NaN or
  in [0,100], ATR is a number \<open>\<ge> 0\<close>, and the lower Donchian bound is a number \<open>\<ge> 0.01\<close>.
\<close>

theorem indicator_ranges:
  assumes "20 \<le> length df" and "list_all well_formed_bar df"
  shows
    "(close (last df) = Num 0 \<longrightarrow> calculate_all_indicators df = Inl ZeroDivisionError) \<and>
     (close (last df) \<noteq> Num 0 \<longrightarrow>
        (\<exists>s. calculate_all_indicators df = Inr s \<and>
           percent_or_nan (snapshot_rsi s) \<and>
           percent_or_nan (snapshot_stoch_k s) \<and>
           percent_or_nan (snapshot_stoch_d s) \<and>
           percent_or_nan (snapshot_adx s) \<and>
           nonneg (snapshot_atr s) \<and>
           (\<exists>l. lower (snapshot_donchian s) = Num l \<and> 1 / 100 \<le> l)))"
proof -
  from assms(1) have ne: "df \<noteq> []" by auto
  have rsi: "percent_or_nan (round2 (last (calculate_rsi 14 df)))"
    using ne rsi_class [OF assms(2), of 14] by (intro last_percent_or_nan) auto
  have k: "percent_or_nan (round2 (last (fst (calculate_stoch_rsi 14 3 3 df))))"
    using ne stoch_rsi_class(1) [of 14 3 3 df] by (intro last_percent_or_nan) auto
  have d: "percent_or_nan (round2 (last (snd (calculate_stoch_rsi 14 3 3 df))))"
    using ne stoch_rsi_class(2) [of 14 3 3 df] by (intro last_percent_or_nan) auto
  have adx: "percent_or_nan (round2 (last (fst (calculate_adx 14 df))))"
    using ne adx_class [OF assms(2), of 14] by (intro last_percent_or_nan) auto
  obtain a where a: "last (calculate_atr 14 df) = Num a" "0 \<le> a"
    using last_atr_nonneg [OF assms(2), of 14] assms(1) by auto
  have atr: "nonneg (round2 (last (calculate_atr 14 df)))"
    using a by (intro round2_nonneg) simp
  have don: "\<exists>l. lower (calculate_donchian_channel 20 df) = Num l \<and> 1 / 100 \<le> l"
    using donchian_lower_floor [OF assms(2), of 20] assms(1) by simp
  show ?thesis
  proof (cases "close (last df) = Num 0")
    case True
    with ne show ?thesis
      by (simp add: calculate_all_indicators_def Let_def py_div_def)
  next
    case False
    with ne rsi k d adx atr don show ?thesis
      by (simp add: calculate_all_indicators_def Let_def py_div_def)
  qed
qed

theorem indicator_ranges_witness:
  "20 \<le> length (replicate 20 flat_bar) \<and> list_all well_formed_bar (replicate 20 flat_bar) \<and>
   close (last (replicate 20 flat_bar)) \<noteq> Num 0 \<and>
   calculate_all_indicators (replicate 20 flat_bar) \<noteq> Inl ZeroDivisionError \<and>
   calculate_all_indicators (replicate 40 flat_bar) \<noteq> Inl ZeroDivisionError"
proof -
  have w: "list_all well_formed_bar (replicate n flat_bar)" for n
    by (simp add: list_all_iff well_formed_bar_def flat_bar_def)
  have c: "close (last (replicate (Suc n) flat_bar)) \<noteq> Num 0" for n
    by (simp add: flat_bar_def)
  have "calculate_all_indicators (replicate 20 flat_bar) \<noteq> Inl ZeroDivisionError"
    using indicator_ranges [OF _ w, of 20] c [of 19] by auto
  moreover have "calculate_all_indicators (replicate 40 flat_bar) \<noteq> Inl ZeroDivisionError"
    using indicator_ranges [OF _ w, of 40] c [of 39] by auto
  ultimately show ?thesis using w [of 20] c [of 19] by simp
qed

subsection \<open>The running score\<close>

lemma check_volume_divergence_reset [simp]: "check_volume_divergence vr (Num 0) = None"
  by (simp add: check_volume_divergence_def fgt_def)

lemma entry_block_None_iff: "check_entry_block rr = None \<longleftrightarrow> \<not> flt rr (Num 1)"
  by (simp add: check_entry_block_def)

lemma entry_block_check_score [simp]: "score (entry_block_check eb st) = score st"
  by (auto simp: entry_block_check_def split: option.splits alert.splits)

lemma volume_divergence_check_None [simp]: "volume_divergence_check None st = st"
  by (simp add: volume_divergence_check_def)

lemma daily_drop_penalty_score:
  "score st = Num s \<Longrightarrow> score (daily_drop_penalty pcp st) = Num (s - drop_penalty_of pcp)"
  by (cases pcp) (auto simp: daily_drop_penalty_def pymin_def fsub_def Let_def min_def)

lemma debt_equity_penalty_finite:
  "is_finite (score st) \<Longrightarrow> is_finite (score (debt_equity_penalty f st))"
  by (cases "score st")
    (auto simp: debt_equity_penalty_def fsub_def Let_def split: option.splits)

lemma debt_equity_extreme_check_finite:
  "is_finite (score st) \<Longrightarrow> is_finite (score (debt_equity_extreme_check f st))"
  by (cases "score st")
    (auto simp: debt_equity_extreme_check_def fsub_def Let_def split: option.splits)

lemma debt_equity_massive_check_finite:
  "is_finite (score st) \<Longrightarrow> is_finite (score (debt_equity_massive_check f st))"
  by (cases "score st")
    (auto simp: debt_equity_massive_check_def fsub_def Let_def split: option.splits)

lemma state_before_blocks_finite:
  "is_finite (score (state_before_blocks f pcp eb None))"
proof -
  have "is_finite (score (daily_drop_penalty pcp initial_state))"
    using daily_drop_penalty_score [of initial_state 0 pcp] by (auto simp: initial_state_def)
  then show ?thesis
    unfolding state_before_blocks_def Let_def
    by (simp add: debt_equity_massive_check_finite debt_equity_extreme_check_finite
        debt_equity_penalty_finite)
qed

lemma debt_equity_penalty_Num:
  "score st = Num s \<Longrightarrow>
   score (debt_equity_penalty (Some \<lparr>free_cash_flow = fcf, debt_to_equity = Some (Num x)\<rparr>) st) =
     Num (s - (if 10 < normalised_ratio x then 30 else if 3 < normalised_ratio x then 20 else 0))"
  by (simp add: debt_equity_penalty_def truthy_debt_to_equity_def truthy_def fsub_def Let_def
      fgt_def normalised_ratio_def)

lemma debt_equity_extreme_check_Num:
  "score st = Num s \<Longrightarrow>
   score (debt_equity_extreme_check
            (Some \<lparr>free_cash_flow = fcf, debt_to_equity = Some (Num x)\<rparr>) st) =
     Num (s - (if 300 < x then 30 else 0))"
  by (simp add: debt_equity_extreme_check_def truthy_debt_to_equity_def truthy_def fsub_def
      fgt_def)

lemma debt_equity_massive_check_Num:
  "score st = Num s \<Longrightarrow>
   score (debt_equity_massive_check
            (Some \<lparr>free_cash_flow = fcf, debt_to_equity = Some (Num x)\<rparr>) st) =
     Num (s - (if 300 < x then 50 else 0))"
  by (simp add: debt_equity_massive_check_def truthy_debt_to_equity_def truthy_def fsub_def
      fgt_def)

lemma state_before_blocks_Num:
  "score (state_before_blocks (Some \<lparr>free_cash_flow = fcf, debt_to_equity = Some (Num x)\<rparr>)
            pcp eb None) =
     Num (- drop_penalty_of pcp
          - (if 10 < normalised_ratio x then 30 else if 3 < normalised_ratio x then 20 else 0)
          - (if 300 < x then 30 else 0)
          - (if 300 < x then 50 else 0))"
proof -
  let ?f = "Some \<lparr>free_cash_flow = fcf, debt_to_equity = Some (Num x)\<rparr>"
  have 0: "score initial_state = Num 0" by (simp add: initial_state_def)
  note a = daily_drop_penalty_score [OF 0, of pcp]
  note b = debt_equity_penalty_Num [OF a, of fcf x]
  note c = debt_equity_extreme_check_Num [OF b, of fcf x]
  have d: "score (entry_block_check eb (debt_equity_extreme_check ?f
             (debt_equity_penalty ?f (daily_drop_penalty pcp initial_state)))) =
           Num (0 - drop_penalty_of pcp
                - (if 10 < normalised_ratio x then 30
                   else if 3 < normalised_ratio x then 20 else 0)
                - (if 300 < x then 30 else 0))"
    using c by simp
  note e = debt_equity_massive_check_Num [OF d, of fcf x]
  show ?thesis
    unfolding state_before_blocks_def Let_def volume_divergence_check_None
    using e by simp
qed

lemma state_before_blocks_no_debt:
  "truthy_debt_to_equity f = None \<Longrightarrow>
   score (state_before_blocks f pcp eb None) = Num (- drop_penalty_of pcp)"
  using daily_drop_penalty_score [of initial_state 0 pcp]
  by (simp add: state_before_blocks_def Let_def debt_equity_penalty_def
      debt_equity_extreme_check_def debt_equity_massive_check_def initial_state_def)

lemma score_regime_score:
  "score st = Num s \<Longrightarrow>
   score (score_regime ind st) = Num (s - (if adx_regime ind = RANGING then 15 else 0))"
  by (simp add: score_regime_def fsub_def)

lemma score_trend_score:
  "score st = Num s \<Longrightarrow>
   score (score_trend ind st) = Num (s + (if trend_direction ind = BULLISH then 20 else - 20))"
  by (simp add: score_trend_def fsub_def)

lemma score_rsi_score:
  "score st = Num s \<Longrightarrow>
   score (score_rsi ind st) =
     Num (s + (if rsi_signal ind = Oversold then 15
               else if rsi_signal ind = Overbought then - 15 else 0))"
  by (simp add: score_rsi_def fsub_def)

lemma score_stoch_rsi_score:
  "score st = Num s \<Longrightarrow>
   score (score_stoch_rsi ind st) =
     Num (s + (if fgt (stoch_rsi_k ind) (Num 85) then - 30
               else if stoch_rsi_signal ind = Oversold then 15 else 0))"
  by (simp add: score_stoch_rsi_def fsub_def)

lemma score_macd_score:
  "score st = Num s \<Longrightarrow>
   score (score_macd ind st) = Num (s + (if macd_cross ind = Bullish_cross then 10 else - 10))"
  by (simp add: score_macd_def fsub_def)

lemma score_vix_score:
  "score st = Num s \<Longrightarrow>
   score (score_vix mc st) = Num (s - (if vix_high_volatility mc then 15 else 0))"
  by (simp add: score_vix_def fsub_def)

lemma level_warnings_score [simp]: "score (level_warnings ind st) = score st"
  by (simp add: level_warnings_def Let_def)

lemma regroup_sum: "Num (s - a + b + c + d + e - f) = Num (s + (- a + b + c + d + e - f))"
  for s :: real
  by simp

lemma scoring_score:
  assumes "score st = Num s"
  shows "score (scoring ind mc st) = Num (s + scoring_delta ind mc)"
proof -
  note a = score_regime_score [OF assms, of ind]
  note b = score_trend_score [OF a]
  note c = score_rsi_score [OF b]
  note d = score_stoch_rsi_score [OF c]
  note e = score_macd_score [OF d]
  note f = score_vix_score [OF e, of mc]
  show ?thesis
    unfolding scoring_def scoring_delta_def level_warnings_score
    by (rule trans [OF f]) (rule regroup_sum)
qed

lemma clamp_confidence_Num:
  "clamp_confidence (Num s) = Num (max 0 (min 100 (50 + s)))"
  by (simp add: clamp_confidence_def pymax_def pymin_def fgt_def max_def min_def)

lemma signal_of_Num:
  "signal_of (Num c) rg =
     (if 70 \<le> c \<and> rg = TRENDING then BUY
      else if c \<le> 30 then SELL else if 50 \<le> c then HOLD else WAIT)"
  by (simp add: signal_of_def fge_def)

lemma final_decision_Num:
  assumes "score st = Num s"
  shows "final_decision rg st =
     Inr \<lparr>signal = (if 70 \<le> max 0 (min 100 (50 + s)) \<and> rg = TRENDING then BUY
                    else if max 0 (min 100 (50 + s)) \<le> 30 then SELL
                    else if 50 \<le> max 0 (min 100 (50 + s)) then HOLD else WAIT),
          confidence = \<lfloor>max 0 (min 100 (50 + s))\<rfloor>,
          reasons = reason_list st, warnings = warning_list st, override_reason = None,
          advanced_alerts = (if alert_list st = [] then None else Some (alert_list st)),
          massive_drop_info = None\<rparr>"
proof -
  define c where "c = max 0 (min 100 (50 + s))"
  have c0: "0 \<le> c" by (simp add: c_def)
  have "clamp_confidence (score st) = Num c"
    using assms by (simp add: clamp_confidence_Num c_def)
  then show ?thesis
    unfolding final_decision_def Let_def c_def [symmetric]
    using c0 by (simp add: signal_of_Num)
qed

lemma generate_signal_fallthrough:
  assumes "check_sell_trigger (rsi_value ind) (stoch_rsi_k ind) (volume_ratio ind) = None"
    and "check_financial_health_block fundamentals = None"
    and "check_earnings_proximity earnings_days = None"
    and "\<not> flt (volume_ratio ind) (Num (1 / 2))"
  shows "generate_signal ind mc risk_data earnings_days fundamentals None pcp =
     final_decision (adx_regime ind)
       (scoring ind mc (state_before_blocks fundamentals pcp
          (check_entry_block
             (case risk_data ''risk_reward_ratio'' of None \<Rightarrow> Num 0 | Some r \<Rightarrow> r)) None))"
  using assms by (simp add: generate_signal_def Let_def entry_block_None_iff)

subsection \<open>The massive-drop override\<close>

text \<open>
  C1: whenever a massive-drop detection is supplied, \<open>generate_signal\<close> returns WAIT with
  confidence 10, whatever the other inputs are; in particular the overbought SELL trigger,
  which is queried later, cannot change the result.
\<close>

theorem massive_drop_wins:
  "generate_signal ind mc risk_data earnings_days fundamentals (Some md) price_change_percent =
     Inr \<lparr>signal = WAIT, confidence = 10, reasons = [warning md], warnings = [action md],
          override_reason = Some (Msg ''MASSIVE DROP DETECTED'' [drop_percent md]),
          advanced_alerts = None, massive_drop_info = Some md\<rparr>"
  by (simp add: generate_signal_def)

theorem massive_drop_wins_witness:
  "check_sell_trigger (rsi_value overbought_indicators) (stoch_rsi_k overbought_indicators)
       (volume_ratio overbought_indicators) =
     Some (Sell_trigger
             (Msg ''SELL_TRIGGER ACTIVAT: Zone de OVERBOUGHT EXTREM''
                [Num 80, Num 95, Num (3 / 10)])
             (Msg ''SELL - Take Profit acum'' []) SELL 85) \<and>
   generate_signal overbought_indicators calm_market sound_risk None None
       (Some ten_percent_drop) (Num (- 10)) =
     Inr \<lparr>signal = WAIT, confidence = 10,
          reasons = [Msg ''Scadere Masiva Detectata'' [Num 10]],
          warnings = [Msg ''WAIT 24-48h pentru stabilizare inainte de orice intrare'' []],
          override_reason = Some (Msg ''MASSIVE DROP DETECTED'' [Num (- 10)]),
          advanced_alerts = None, massive_drop_info = Some ten_percent_drop\<rparr>"
  using massive_drop_wins [of overbought_indicators calm_market sound_risk None None
      ten_percent_drop "Num (- 10)"]
  by (simp add: check_sell_trigger_def fgt_def sample_defs)

subsection \<open>Confidence and final mapping\<close>

text \<open>
  C4, as the claim states it, fails when the score is not whole: a daily change of -8.875%
  costs 44.375 points, the clamped value is 30.625, the returned confidence is 30, and the
  signal is WAIT although the mapping applied to the returned 30 gives SELL.
\<close>

theorem fractional_confidence_counterexample:
  "generate_signal oversold_indicators calm_market sound_risk None None None
       (Num (- (71 / 8))) =
     Inr \<lparr>signal = WAIT, confidence = 30,
          reasons = [Msg ''Trend bullish pe EMA 50'' [],
                     Msg ''RSI supravandut - posibila revenire'' []],
          warnings = [Msg ''ATENTIE: Cadere zilnica'' [Num (- (71 / 8))]],
          override_reason = None, advanced_alerts = None, massive_drop_info = None\<rparr> \<and>
   clamp_confidence (score (scoring oversold_indicators calm_market
      (state_before_blocks None (Num (- (71 / 8))) None None))) = Num (245 / 8) \<and>
   signal_of (Num 30) TRENDING = SELL"
  by code_simp

text \<open>
  C4 (amended): when no override returns, the running score \<open>s\<close> is a finite number, the call
  returns a decision, the returned confidence is \<open>clamp(50 + s, 0, 100)\<close> truncated to an
  integer, and the signal is given by the mapping applied to the clamped value before
  truncation: BUY if it is \<open>\<ge> 70\<close> and the regime is TRENDING, otherwise SELL if it is
  \<open>\<le> 30\<close>, otherwise HOLD if it is \<open>\<ge> 50\<close>, otherwise WAIT.
\<close>

theorem scoring_pass_decision:
  assumes "rr = (case risk_data ''risk_reward_ratio'' of None \<Rightarrow> Num 0 | Some r \<Rightarrow> r)"
    and "check_sell_trigger (rsi_value ind) (stoch_rsi_k ind) (volume_ratio ind) = None"
    and "check_financial_health_block fundamentals = None"
    and "check_earnings_proximity earnings_days = None"
    and "\<not> (flt rr (Num 1) \<and> check_entry_block rr = None)"
    and "\<not> (flt (volume_ratio ind) (Num (1 / 2)) \<and>
            check_volume_divergence (volume_ratio ind) (Num 0) = None)"
  shows
    "\<exists>s. score (scoring ind mc (state_before_blocks fundamentals pcp
             (check_entry_block rr)
             (check_volume_divergence (volume_ratio ind) (Num 0)))) = Num s \<and>
       (\<exists>d. generate_signal ind mc risk_data earnings_days fundamentals None pcp = Inr d \<and>
          confidence d = \<lfloor>max 0 (min 100 (50 + s))\<rfloor> \<and>
          signal d =
            (if 70 \<le> max 0 (min 100 (50 + s)) \<and> adx_regime ind = TRENDING then BUY
             else if max 0 (min 100 (50 + s)) \<le> 30 then SELL
             else if 50 \<le> max 0 (min 100 (50 + s)) then HOLD else WAIT))"
proof -
  let ?st = "state_before_blocks fundamentals pcp (check_entry_block rr) None"
  have "is_finite (score ?st)" by (rule state_before_blocks_finite)
  then obtain s0 where s0: "score ?st = Num s0"
    by (cases "score ?st") auto
  note sc = scoring_score [OF s0, of ind mc]
  have vol: "\<not> flt (volume_ratio ind) (Num (1 / 2))"
    using assms(6) by simp
  show ?thesis
    unfolding check_volume_divergence_reset
    using generate_signal_fallthrough [OF assms(2-4) vol, of mc risk_data pcp]
      final_decision_Num [OF sc, of "adx_regime ind"] sc assms(1)
    by simp
qed

theorem scoring_pass_decision_witness:
  "check_sell_trigger (rsi_value oversold_indicators) (stoch_rsi_k oversold_indicators)
       (volume_ratio oversold_indicators) = None \<and>
   check_financial_health_block None = None \<and>
   check_earnings_proximity None = None \<and>
   \<not> (flt (Num 2) (Num 1) \<and> check_entry_block (Num 2) = None) \<and>
   \<not> (flt (volume_ratio oversold_indicators) (Num (1 / 2)) \<and>
      check_volume_divergence (volume_ratio oversold_indicators) (Num 0) = None) \<and>
   generate_signal oversold_indicators calm_market sound_risk None None None (Num (- 9)) \<noteq>
     Inl ValueError"
proof -
  have h0: "Num 2 = (case sound_risk ''risk_reward_ratio'' of None \<Rightarrow> Num 0 | Some r \<Rightarrow> r)"
    by (simp add: sound_risk_def)
  have h1: "check_sell_trigger (rsi_value oversold_indicators)
      (stoch_rsi_k oversold_indicators) (volume_ratio oversold_indicators) = None"
    by (simp add: check_sell_trigger_def fgt_def sample_defs)
  have h2: "check_financial_health_block None = None"
    by (simp add: check_financial_health_block_def)
  have h3: "check_earnings_proximity None = None"
    by (simp add: check_earnings_proximity_def)
  have h4: "\<not> (flt (Num 2) (Num 1) \<and> check_entry_block (Num 2) = None)"
    by simp
  have h5: "\<not> (flt (volume_ratio oversold_indicators) (Num (1 / 2)) \<and>
      check_volume_divergence (volume_ratio oversold_indicators) (Num 0) = None)"
    by (simp add: sample_defs)
  from scoring_pass_decision [where rr = "Num 2" and risk_data = sound_risk
      and ind = oversold_indicators and fundamentals = None and earnings_days = None
      and mc = calm_market and pcp = "Num (- 9)"] h0 h1 h2 h3 h4 h5
  have "generate_signal oversold_indicators calm_market sound_risk None None None (Num (- 9))
      \<noteq> Inl ValueError"
    by auto
  with h1 h2 h3 h4 h5 show ?thesis by simp
qed

subsection \<open>Debt/equity penalties\<close>

text \<open>
  C5, as the claim states it, fails: a third check takes a further 50 points for raw values
  above 300. For the input 1120 the debt/equity checks cost 110 points in total, not 60;
  for 11.2 they cost 30.
\<close>

theorem third_debt_penalty_counterexample:
  "score (state_before_blocks (Some leveraged_percent) (Num 0) None None) = Num (- 110) \<and>
   score (state_before_blocks (Some leveraged_ratio) (Num 0) None None) = Num (- 30) \<and>
   generate_signal bullish_indicators calm_market sound_risk None (Some leveraged_percent)
       None (Num 0) =
     Inr \<lparr>signal = SELL, confidence = 0,
          reasons = [Msg ''Trend bullish pe EMA 50'' [],
                     Msg ''RSI supravandut - posibila revenire'' [],
                     Msg ''Stoch RSI supravandut - oportunitate'' [],
                     Msg ''MACD bullish'' []],
          warnings = [Msg ''RISC FINANCIAR EXTREM: Debt/Equity'' [Num (56 / 5)],
                      Msg ''RISC FINANCIAR CRITIC: Debt/Equity'' [Num 1120],
                      Msg ''RISC FINANCIAR CRITIC: Debt/Equity (%)'' [Num 1120]],
          override_reason = None, advanced_alerts = None, massive_drop_info = None\<rparr>"
  by code_simp

text \<open>
  C5 (amended): the inputs 1120 and 11.2 both normalise to the ratio 11.2 and both incur the
  critical penalty of 30 points with the same critical warning. For raw values above 300 the
  compatibility check takes a further 30 points and the check made after the financial
  health query a further 50; the debt/equity entry costs exactly the sum of the three, on
  top of the daily drop penalty.
\<close>

theorem debt_equity_penalties:
  "debt_equity_penalty (Some \<lparr>free_cash_flow = fcf, debt_to_equity = Some (Num 1120)\<rparr>)
       initial_state =
     initial_state\<lparr>score := Num (- 30),
       critical_blocks := [Msg ''DEBT/EQUITY CRITIC'' [Num 1120, Num (56 / 5), Num 30]],
       warning_list := [Msg ''RISC FINANCIAR EXTREM: Debt/Equity'' [Num (56 / 5)]]\<rparr> \<and>
   debt_equity_penalty (Some \<lparr>free_cash_flow = fcf, debt_to_equity = Some (Num (56 / 5))\<rparr>)
       initial_state =
     initial_state\<lparr>score := Num (- 30),
       critical_blocks := [Msg ''DEBT/EQUITY CRITIC'' [Num (56 / 5), Num (56 / 5), Num 30]],
       warning_list := [Msg ''RISC FINANCIAR EXTREM: Debt/Equity'' [Num (56 / 5)]]\<rparr> \<and>
   score (state_before_blocks (Some \<lparr>free_cash_flow = fcf, debt_to_equity = Some (Num x)\<rparr>)
            pcp eb (check_volume_divergence vr (Num 0))) =
     Num (- drop_penalty_of pcp
          - (if 10 < normalised_ratio x then 30 else if 3 < normalised_ratio x then 20 else 0)
          - (if 300 < x then 30 else 0)
          - (if 300 < x then 50 else 0))"
proof -
  have "debt_equity_penalty (Some \<lparr>free_cash_flow = fcf, debt_to_equity = Some (Num 1120)\<rparr>)
       initial_state =
     initial_state\<lparr>score := Num (- 30),
       critical_blocks := [Msg ''DEBT/EQUITY CRITIC'' [Num 1120, Num (56 / 5), Num 30]],
       warning_list := [Msg ''RISC FINANCIAR EXTREM: Debt/Equity'' [Num (56 / 5)]]\<rparr>"
    by (simp add: debt_equity_penalty_def truthy_debt_to_equity_def truthy_def fgt_def
        fsub_def Let_def initial_state_def)
  moreover have
    "debt_equity_penalty (Some \<lparr>free_cash_flow = fcf, debt_to_equity = Some (Num (56 / 5))\<rparr>)
       initial_state =
     initial_state\<lparr>score := Num (- 30),
       critical_blocks := [Msg ''DEBT/EQUITY CRITIC'' [Num (56 / 5), Num (56 / 5), Num 30]],
       warning_list := [Msg ''RISC FINANCIAR EXTREM: Debt/Equity'' [Num (56 / 5)]]\<rparr>"
    by (simp add: debt_equity_penalty_def truthy_debt_to_equity_def truthy_def fgt_def
        fsub_def Let_def initial_state_def)
  ultimately show ?thesis
    unfolding check_volume_divergence_reset
    using state_before_blocks_Num [of fcf x pcp eb] by simp
qed

theorem debt_equity_penalties_witness:
  "score (state_before_blocks (Some leveraged_percent) (Num (- 10)) None
            (check_volume_divergence (Num 1) (Num 0))) = Num (- 160) \<and>
   score (state_before_blocks (Some leveraged_ratio) (Num (- 10)) None
            (check_volume_divergence (Num 1) (Num 0))) = Num (- 80)"
  using debt_equity_penalties [of None 1120 "Num (- 10)" None "Num 1"]
    debt_equity_penalties [of None "56 / 5" "Num (- 10)" None "Num 1"]
  by (simp add: sample_defs normalised_ratio_def)

subsection \<open>Volume divergence\<close>

text \<open>
  C6 fails on the code: \<open>generate_signal\<close> sets \<open>price_change_percent\<close> to 0 before it
  queries \<open>check_volume_divergence\<close>, so the rule never fires there. With a volume ratio of
  0.6 and a price that rose by 5% the result has no warning and no penalty (confidence 60,
  HOLD), although the rule itself, given the real change, returns its alert.
\<close>

theorem volume_divergence_not_applied:
  "generate_signal thin_volume_indicators calm_market sound_risk None None None (Num 5) =
     Inr \<lparr>signal = HOLD, confidence = 60,
          reasons = [Msg ''Trend bullish pe EMA 50'' []], warnings = [],
          override_reason = None, advanced_alerts = None, massive_drop_info = None\<rparr> \<and>
   check_volume_divergence (volume_ratio thin_volume_indicators) (Num 5) =
     Some (Volume_divergence (Msg ''DIVERGENTA DE VOLUM'' [Num (6 / 10), Num 5])
             (Msg ''NU CUMPARA - Asteptati confirmare cu volum mare'' []) (Num 30))"
  by code_simp

subsection \<open>Entry optimizer\<close>

lemma set_insert_by_distance: "set (insert_by_distance x ys) = insert x (set ys)"
  by (induction ys) auto

lemma set_sort_by_distance: "set (sort_by_distance xs) = set xs"
  by (induction xs) (simp_all add: sort_by_distance_def set_insert_by_distance)

lemma fle_total: "is_finite x \<Longrightarrow> is_finite y \<Longrightarrow> \<not> flt y x \<Longrightarrow> fle x y"
  by (cases x; cases y) auto

lemma flt_fle: "flt y x \<Longrightarrow> fle y x"
  by (cases x; cases y) auto

lemma fle_trans: "fle x y \<Longrightarrow> fle y z \<Longrightarrow> fle x z"
  by (cases x; cases y; cases z) auto

lemma insert_by_distance_sorted:
  assumes "is_finite (distance_percent x)"
    and "list_all (\<lambda>e. is_finite (distance_percent e)) ys"
    and "sorted_wrt dist_le ys"
  shows "sorted_wrt dist_le (insert_by_distance x ys)"
  using assms(2,3)
proof (induction ys)
  case Nil
  then show ?case by simp
next
  case (Cons y ys)
  from Cons.prems have fy: "is_finite (distance_percent y)"
    and fys: "list_all (\<lambda>e. is_finite (distance_percent e)) ys"
    and sy: "\<forall>e\<in>set ys. dist_le y e" and sys: "sorted_wrt dist_le ys"
    by simp_all
  show ?case
  proof (cases "flt (distance_percent y) (distance_percent x)")
    case True
    have ih: "sorted_wrt dist_le (insert_by_distance x ys)"
      using Cons.IH fys sys by blast
    have "dist_le y x" using True by (simp add: dist_le_def flt_fle)
    with sy have "\<forall>e\<in>set (insert_by_distance x ys). dist_le y e"
      by (simp add: set_insert_by_distance)
    with ih True show ?thesis by simp
  next
    case False
    have xy: "dist_le x y"
      using False fy assms(1) by (simp add: dist_le_def fle_total)
    have "\<forall>e\<in>set ys. dist_le x e"
    proof
      fix e assume "e \<in> set ys"
      with sy have "dist_le y e" by blast
      with xy show "dist_le x e" unfolding dist_le_def by (rule fle_trans)
    qed
    with xy sy sys False show ?thesis by simp
  qed
qed

lemma sort_by_distance_sorted:
  assumes "list_all (\<lambda>e. is_finite (distance_percent e)) xs"
  shows "sorted_wrt dist_le (sort_by_distance xs)"
  using assms
proof (induction xs)
  case Nil
  then show ?case by (simp add: sort_by_distance_def)
next
  case (Cons x xs)
  from Cons.prems have fx: "is_finite (distance_percent x)"
    and fxs: "list_all (\<lambda>e. is_finite (distance_percent e)) xs"
    by simp_all
  have "list_all (\<lambda>e. is_finite (distance_percent e)) (sort_by_distance xs)"
    using fxs by (simp add: list_all_iff set_sort_by_distance)
  moreover have "sorted_wrt dist_le (sort_by_distance xs)"
    using Cons.IH fxs by blast
  ultimately have "sorted_wrt dist_le (insert_by_distance x (sort_by_distance xs))"
    using fx by (intro insert_by_distance_sorted)
  then show ?case by (simp add: sort_by_distance_def)
qed

lemma best_entry_first:
  "best_entry t a r es = Some b \<Longrightarrow>
   \<exists>pre post. es = pre @ b # post \<and> acceptable t a r b \<and>
     list_all (\<lambda>e. \<not> acceptable t a r e) pre"
proof (induction es)
  case Nil
  then show ?case by simp
next
  case (Cons e es)
  show ?case
  proof (cases "acceptable t a r e")
    case True
    with Cons.prems have "b = e" by simp
    with True show ?thesis by (intro exI [of _ "[]"] exI [of _ es]) simp
  next
    case False
    with Cons obtain pre post where
      "es = pre @ b # post" "acceptable t a r b" "list_all (\<lambda>e. \<not> acceptable t a r e) pre"
      by auto
    with False show ?thesis by (intro exI [of _ "e # pre"] exI [of _ post]) simp
  qed
qed

text \<open>The worked example of the specification: with price 100, EMA 20 at 95, support 90,
  resistance 110, ATR 2 and current R/R 1, EMA 20 is selected with R/R 5, wherever the
  EMA 50 lies.\<close>

lemma optimize_entry_example:
  "optimize_entry (Num 2) (Num 100) (Num 95) ema_50 (Num 90) (Num 110) (Num 2) (Num 1) =
     Inr \<lparr>optimized = True, current_rr = Num 1, ideal_entry = Num 95,
          ideal_sl = Num 92, ideal_tp = Num 110, ideal_rr = Num 5,
          entry_level = Some EMA_20, pullback_distance = Some (Num 5),
          target_missed_warning = False, stabilization_warning = False, success = True\<rparr>"
proof -
  let ?e20 = "\<lparr>level = EMA_20, price = Num 95, distance_percent = Num 5\<rparr>"
  let ?sup = "\<lparr>level = Support_Pivot, price = Num 90, distance_percent = Num 10\<rparr>"
  have o1: "pullback_option EMA_20 (Num (98 / 100)) (Num 100) (Num 95) = Inr [?e20]"
    by (simp add: pullback_option_def py_div_def fsub_def)
  have o3: "pullback_option Support_Pivot (Num (97 / 100)) (Num 100) (Num 90) = Inr [?sup]"
    by (simp add: pullback_option_def py_div_def fsub_def)
  have "\<exists>o2. pullback_option EMA_50 (Num (95 / 100)) (Num 100) ema_50 = Inr o2 \<and>
          list_all (\<lambda>e. \<not> flt (distance_percent e) (Num 5)) o2"
    by (cases ema_50) (simp_all add: pullback_option_def py_div_def fsub_def)
  then obtain o2 where o2: "pullback_option EMA_50 (Num (95 / 100)) (Num 100) ema_50 = Inr o2"
    and d2: "list_all (\<lambda>e. \<not> flt (distance_percent e) (Num 5)) o2"
    by blast
  have acc: "acceptable (Num 2) (Num 2) (Num 110) ?e20"
    by (simp add: acceptable_def option_rr_def option_sl_def fsub_def fgt_def fge_def Let_def)
  have "insert_by_distance ?e20 (sort_by_distance (o2 @ [?sup])) =
      ?e20 # sort_by_distance (o2 @ [?sup])"
  proof (cases "sort_by_distance (o2 @ [?sup])")
    case Nil
    then show ?thesis by simp
  next
    case (Cons y ys)
    then have "y \<in> set (sort_by_distance (o2 @ [?sup]))" by simp
    then have "y \<in> set (o2 @ [?sup])" by (simp only: set_sort_by_distance)
    then have "\<not> flt (distance_percent y) (Num 5)"
      using d2 by (auto simp: list_all_iff)
    with Cons show ?thesis by simp
  qed
  then have srt: "sort_by_distance ([?e20] @ o2 @ [?sup]) =
      ?e20 # sort_by_distance (o2 @ [?sup])"
    by (simp add: sort_by_distance_def)
  show ?thesis
    unfolding optimize_entry_def o1 o2 o3
    using acc srt
    by (simp add: fge_def Let_def option_sl_def fsub_def round_half_even_def)
qed

text \<open>
  C9 fails on the code at the boundary of a qualifying pullback: an EMA 20 exactly 2% below
  the price (98 at price 100) is not a candidate, because the test is \<open>ema_20 < price *
  0.98\<close>. With ATR 2 and resistance 110 it has R/R \<open>(110 - 98) / 3 = 4\<close> and is the closest
  level, yet the optimizer returns the pivot support at 90.
\<close>

theorem exact_pullback_boundary_skipped:
  "optimize_entry (Num 2) (Num 100) (Num 98) (Num 99) (Num 90) (Num 110) (Num 2) (Num 1) =
     Inr \<lparr>optimized = True, current_rr = Num 1, ideal_entry = Num 90,
          ideal_sl = Num 87, ideal_tp = Num 110, ideal_rr = Num (667 / 100),
          entry_level = Some Support_Pivot, pullback_distance = Some (Num 10),
          target_missed_warning = False, stabilization_warning = False, success = True\<rparr> \<and>
   fmul (fdiv (fsub (Num 100) (Num 98)) (Num 100)) (Num 100) = Num 2 \<and>
   pullback_option EMA_20 (Num (98 / 100)) (Num 100) (Num 98) = Inr [] \<and>
   option_rr (Num 2) (Num 110) \<lparr>level = EMA_20, price = Num 98, distance_percent = Num 2\<rparr> =
     Some (Num 4)"
  by code_simp

end
